theory Spec2Isabelle
  imports Main "HOL-Library.AList"
begin

section \<open>Strings and the POSIX path primitives the plugin calls\<close>

text \<open>
  The plugin (\<^verbatim>\<open>packages/phpunit\<close>, one TypeScript module) manipulates paths only
  through \<^verbatim>\<open>node:path\<close> (\<^verbatim>\<open>dirname\<close>, \<^verbatim>\<open>join\<close>, \<^verbatim>\<open>parse\<close>,
  \<^verbatim>\<open>relative\<close>, \<^verbatim>\<open>resolve\<close>) and \<^verbatim>\<open>@nx/devkit\<close> (\<^verbatim>\<open>normalizePath\<close>,
  \<^verbatim>\<open>joinPathFragments\<close>). Those libraries are not part of the repository; they are
  modelled here after the POSIX variant of the Node.js implementation, on the level of path
  segments: a path is split at \<^verbatim>\<open>/\<close>, the segments are normalised, and the result is
  joined again. JavaScript strings are modelled as \<^typ>\<open>string\<close>.
\<close>

definition slash :: char where [simp]: "slash = CHR 0x2F"
definition backslash :: char where [simp]: "backslash = CHR 0x5C"

text \<open>\<^verbatim>\<open>s.split(c)\<close>: the pieces of \<open>s\<close> between occurrences of \<open>c\<close>; never empty.\<close>

fun splitOn :: "char \<Rightarrow> string \<Rightarrow> string list" where
  "splitOn c [] = [[]]"
| "splitOn c (x # xs) =
     (if x = c then [] # splitOn c xs
      else (case splitOn c xs of [] \<Rightarrow> [[x]] | s # ss \<Rightarrow> (x # s) # ss))"

text \<open>\<^verbatim>\<open>segments.join(sep)\<close>.\<close>

fun joinWith :: "string \<Rightarrow> string list \<Rightarrow> string" where
  "joinWith sep [] = []"
| "joinWith sep [s] = s"
| "joinWith sep (s # t # ss) = s @ sep @ joinWith sep (t # ss)"

text \<open>\<^verbatim>\<open>s.startsWith(p)\<close>.\<close>

definition startsWith :: "string \<Rightarrow> string \<Rightarrow> bool" where
  "startsWith s p = (take (length p) s = p)"

text \<open>
  \<^verbatim>\<open>normalizeString(path, allowAboveRoot, '/', isPosixPathSeparator)\<close> of Node's
  \<^verbatim>\<open>lib/path.js\<close>: empty segments and \<^verbatim>\<open>.\<close> are dropped; \<^verbatim>\<open>..\<close> removes the
  segment before it, unless there is none or it is itself \<^verbatim>\<open>..\<close>, in which case
  \<^verbatim>\<open>..\<close> is kept when \<open>allowAboveRoot\<close> holds and dropped otherwise. \<open>res\<close> is the
  result built so far.
\<close>

fun normalizeSegments :: "bool \<Rightarrow> string list \<Rightarrow> string list \<Rightarrow> string list" where
  "normalizeSegments allowAboveRoot res [] = res"
| "normalizeSegments allowAboveRoot res (s # ss) =
     (if s = [] \<or> s = ''.'' then normalizeSegments allowAboveRoot res ss
      else if s = ''..'' then
        (if res \<noteq> [] \<and> last res \<noteq> ''..''
           then normalizeSegments allowAboveRoot (butlast res) ss
         else if allowAboveRoot
           then normalizeSegments allowAboveRoot (res @ [''..'']) ss
         else normalizeSegments allowAboveRoot res ss)
      else normalizeSegments allowAboveRoot (res @ [s]) ss)"

definition normalizeString :: "string \<Rightarrow> bool \<Rightarrow> string" where
  "normalizeString path allowAboveRoot =
     joinWith ''/'' (normalizeSegments allowAboveRoot [] (splitOn slash path))"

text \<open>\<^verbatim>\<open>path.isAbsolute\<close> (POSIX): the path begins with a slash.\<close>

definition isAbsolute :: "string \<Rightarrow> bool" where
  "isAbsolute path = (path \<noteq> [] \<and> hd path = slash)"

text \<open>
  \<^verbatim>\<open>path.normalize\<close> (POSIX).
\<close>

definition normalize :: "string \<Rightarrow> string" where
  "normalize path =
     (if path = [] then ''.''
      else let isAbs = isAbsolute path;
               trailingSeparator = (last path = slash);
               p = normalizeString path (\<not> isAbs)
           in if p = [] then (if isAbs then ''/'' else if trailingSeparator then ''./'' else ''.'')
              else (if isAbs then ''/'' else []) @ p @ (if trailingSeparator then ''/'' else []))"

text \<open>
  \<^verbatim>\<open>path.join(...args)\<close> (POSIX): the non-empty arguments joined by a slash, then
  normalised; \<^verbatim>\<open>.\<close> when there is none.
\<close>

definition join :: "string list \<Rightarrow> string" where
  "join args =
     (let joined = joinWith ''/'' (filter (\<lambda>a. a \<noteq> []) args)
      in if joined = [] then ''.'' else normalize joined)"

text \<open>
  \<^verbatim>\<open>path.resolve(...args)\<close> (POSIX). The loop runs over the arguments from the right,
  then over the working directory of the process, and stops at the first absolute path; the
  working directory \<open>cwd\<close> is an explicit parameter here.
\<close>

fun resolveLoop :: "string list \<Rightarrow> string \<Rightarrow> string \<times> bool" where
  "resolveLoop [] resolvedPath = (resolvedPath, False)"
| "resolveLoop (p # ps) resolvedPath =
     (if p = [] then resolveLoop ps resolvedPath
      else if hd p = slash then (p @ ''/'' @ resolvedPath, True)
      else resolveLoop ps (p @ ''/'' @ resolvedPath))"

definition resolve :: "string \<Rightarrow> string list \<Rightarrow> string" where
  "resolve cwd args =
     (case resolveLoop (rev args @ [cwd]) [] of
        (resolvedPath, resolvedAbsolute) \<Rightarrow>
          let p = normalizeString resolvedPath (\<not> resolvedAbsolute)
          in if resolvedAbsolute then ''/'' @ p
             else if p \<noteq> [] then p else ''.'')"

text \<open>
  \<^verbatim>\<open>path.relative(from, to)\<close> (POSIX): both paths are resolved, the segments they share
  as a prefix are dropped, one \<^verbatim>\<open>..\<close> is emitted for every remaining segment of
  \<open>from\<close>, followed by the remaining segments of \<open>to\<close>. Node compares the resolved
  strings character by character after their leading slash; for absolute resolved paths,
  which is what \<^verbatim>\<open>resolve\<close> returns whenever the working directory is absolute, that
  is the computation on segments below.
\<close>

fun dropCommon :: "string list \<Rightarrow> string list \<Rightarrow> string list \<times> string list" where
  "dropCommon (x # xs) (y # ys) = (if x = y then dropCommon xs ys else (x # xs, y # ys))"
| "dropCommon xs ys = (xs, ys)"

definition segmentsOf :: "string \<Rightarrow> string list" where
  "segmentsOf path = filter (\<lambda>s. s \<noteq> []) (splitOn slash path)"

definition relative :: "string \<Rightarrow> string \<Rightarrow> string \<Rightarrow> string" where
  "relative cwd from to =
     (if from = to then []
      else let from' = resolve cwd [from]; to' = resolve cwd [to]
           in if from' = to' then []
              else case dropCommon (segmentsOf from') (segmentsOf to') of
                     (fromRest, toRest) \<Rightarrow>
                       joinWith ''/'' (replicate (length fromRest) ''..'' @ toRest))"

text \<open>
  \<^verbatim>\<open>path.dirname\<close> (POSIX): trailing slashes are ignored, the result is the path up
  to the last slash before the final segment.
\<close>

definition dropTrailing :: "char \<Rightarrow> string \<Rightarrow> string" where
  "dropTrailing c s = rev (dropWhile (\<lambda>x. x = c) (rev s))"

definition lastSegment :: "string \<Rightarrow> string" where
  "lastSegment s = rev (takeWhile (\<lambda>x. x \<noteq> slash) (rev s))"

definition dirname :: "string \<Rightarrow> string" where
  "dirname path =
     (if path = [] then ''.''
      else let hasRoot = (hd path = slash);
               trimmed = dropTrailing slash (tl path);
               e = length trimmed - length (lastSegment trimmed)
           in if slash \<notin> set trimmed then (if hasRoot then ''/'' else ''.'')
              else if hasRoot \<and> e = 1 then ''//''
              else take e path)"

text \<open>
  \<^verbatim>\<open>path.parse\<close> (POSIX), the fields \<^verbatim>\<open>root\<close>, \<^verbatim>\<open>dir\<close>, \<^verbatim>\<open>base\<close>,
  \<^verbatim>\<open>ext\<close>, \<^verbatim>\<open>name\<close>. \<open>startPart\<close> is Node's variable of that name: the index at
  which the final segment starts, left at 0 when no slash precedes it (also for an absolute
  path, whose final segment then starts at 1).
\<close>

record parsed_path =
  root :: string
  dir :: string
  base :: string
  ext :: string
  name :: string

definition lastIndexOf :: "char \<Rightarrow> string \<Rightarrow> nat option" where
  "lastIndexOf c s =
     (if c \<in> set s then Some (length s - 1 - length (takeWhile (\<lambda>x. x \<noteq> c) (rev s))) else None)"

definition parse :: "string \<Rightarrow> parsed_path" where
  "parse path =
     (if path = [] then \<lparr>root = [], dir = [], base = [], ext = [], name = []\<rparr>
      else let isAbs = (hd path = slash);
               start = (if isAbs then 1 else 0 :: nat);
               rt = (if isAbs then ''/'' else []);
               trimmed = dropTrailing slash (drop start path)
           in if trimmed = []
              then \<lparr>root = rt, dir = rt, base = [], ext = [], name = []\<rparr>
              else let b = lastSegment trimmed;
                       startPart = (if slash \<in> set trimmed
                                    then start + length trimmed - length b else 0);
                       baseStart = (if slash \<in> set trimmed then startPart else start);
                       d = (if startPart > 0 then take (startPart - 1) path else rt)
                   in case lastIndexOf (CHR ''.'') b of
                        None \<Rightarrow> \<lparr>root = rt, dir = d, base = b, ext = [], name = b\<rparr>
                      | Some k \<Rightarrow>
                          if k = 0 \<or>
                             (hd b = CHR ''.'' \<and> k = length b - 1 \<and> baseStart + k = startPart + 1)
                          then \<lparr>root = rt, dir = d, base = b, ext = [], name = b\<rparr>
                          else \<lparr>root = rt, dir = d, base = b, ext = drop k b, name = take k b\<rparr>)"

text \<open>
  \<^verbatim>\<open>normalizePath\<close> of \<^verbatim>\<open>@nx/devkit\<close>: a leading drive letter (\<^verbatim>\<open>/^[A-Z]:/\<close>) is
  removed and every backslash becomes a slash. \<^verbatim>\<open>joinPathFragments\<close> is
  \<^verbatim>\<open>normalizePath(path.join(...fragments))\<close>.
\<close>

definition isUpper :: "char \<Rightarrow> bool" where
  "isUpper c = (65 \<le> (of_char c :: nat) \<and> (of_char c :: nat) \<le> 90)"

fun removeWindowsDriveLetter :: "string \<Rightarrow> string" where
  "removeWindowsDriveLetter (a # b # rest) =
     (if isUpper a \<and> b = CHR '':'' then rest else a # b # rest)"
| "removeWindowsDriveLetter s = s"

definition normalizePath :: "string \<Rightarrow> string" where
  "normalizePath osSpecificPath =
     map (\<lambda>c. if c = backslash then slash else c) (removeWindowsDriveLetter osSpecificPath)"

definition joinPathFragments :: "string list \<Rightarrow> string" where
  "joinPathFragments fragments = normalizePath (join fragments)"

section \<open>The data model of the plugin\<close>

text \<open>
  \<^verbatim>\<open>PhpUnitPluginOptions\<close> and \<^verbatim>\<open>NormalizedOptions\<close>. A property that is absent or
  \<^verbatim>\<open>undefined\<close> is \<open>None\<close>.
\<close>

record php_unit_plugin_options =
  opt_targetName :: "string option"
  opt_ciTargetName :: "string option"

record normalized_options =
  targetName :: string
  ciTargetName :: "string option"

text \<open>
  The result of the XML parser (\<^verbatim>\<open>fast-xml-parser\<close> with
  \<^verbatim>\<open>ignoreAttributes: false\<close>, an external library). The module is written against its
  interface \<^verbatim>\<open>PhpUnitConfiguration\<close>: it reads \<^verbatim>\<open>@_cacheResultFile\<close> and
  \<^verbatim>\<open>coverage\<close> at the top level of the result, and the test suite at
  \<^verbatim>\<open>phpunit.testsuites.testsuite\<close>. The parser makes the root element of the document a
  property of the result, named after its tag, and puts the attributes of an element
  (prefixed with \<^verbatim>\<open>@_\<close>) and its children among the properties of that element. So
  the root element \<^verbatim>\<open>phpunit\<close> has properties of its own for the attribute
  \<^verbatim>\<open>cacheResultFile\<close> and the child \<^verbatim>\<open>coverage\<close>, which the module does not read.

  A property that is absent or \<^verbatim>\<open>undefined\<close> is \<open>None\<close>. An element with text only
  parses to a string, an element with attributes or children to an object, a repeated
  element to an array: for the \<^verbatim>\<open>directory\<close> of a test suite, \<open>js_value\<close> keeps the
  string, and of any other value whether it is truthy; a repeated \<^verbatim>\<open>testsuite\<close> is an
  array, which has no property \<^verbatim>\<open>directory\<close>.
\<close>

datatype js_value = JsString string | JsOther bool

record php_unit_test_suite =
  suite_name :: "string option"
  directory :: "js_value option"

datatype testsuite_value = Testsuite php_unit_test_suite | TestsuiteList "php_unit_test_suite list"

record testsuites_element =
  testsuite :: "testsuite_value option"

record coverage_element =
  cacheDirectory :: "string option"

record phpunit_element =
  root_cacheResultFile :: "string option"
  root_coverage :: "coverage_element option"
  testsuites :: "testsuites_element option"

record php_unit_configuration =
  cacheResultFile :: "string option"
  phpunit :: "phpunit_element option"
  coverage :: "coverage_element option"

text \<open>
  What the parser returns for a configuration file, a document whose root element is
  \<^verbatim>\<open>phpunit\<close>: the root is the property \<^verbatim>\<open>phpunit\<close> of the result, and the result
  has no property \<^verbatim>\<open>@_cacheResultFile\<close> or \<^verbatim>\<open>coverage\<close> of its own.
\<close>

definition documentOf :: "phpunit_element \<Rightarrow> php_unit_configuration" where
  "documentOf rootElement =
     \<lparr>cacheResultFile = None, phpunit = Some rootElement, coverage = None\<rparr>"

text \<open>\<^verbatim>\<open>TargetConfiguration\<close> of the host, with the fields the module sets.\<close>

record target_dependency =
  dep_target :: string
  dep_projects :: string
  dep_params :: string

record target_help =
  help_command :: string
  help_example_args :: "string list"

record target_metadata =
  technologies :: "string list"
  description :: string
  nonAtomizedTarget :: "string option"
  target_help :: target_help

record target_configuration =
  command :: "string option"
  options_cwd :: "string option"
  executor :: "string option"
  cache :: "bool option"
  inputs :: "string list option"
  outputs :: "string list option"
  dependsOn :: "target_dependency list option"
  parallelism :: "bool option"
  target_metadata :: "target_metadata option"

text \<open>
  \<^verbatim>\<open>PhpUnitTargets\<close>: the \<^verbatim>\<open>targets\<close> object and the \<^verbatim>\<open>metadata\<close>, whose only
  content is \<^verbatim>\<open>targetGroups\<close>. JavaScript objects keep their keys in insertion order
  and an assignment to an existing key keeps its place, so an object is an association list
  updated with \<^const>\<open>AList.update\<close>.
\<close>

type_synonym target_groups = "(string \<times> string list) list"

record php_unit_targets =
  targets :: "(string \<times> target_configuration) list"
  metadata :: "target_groups option"

record project_configuration =
  project_name :: "string option"
  project_root :: string
  project_targets :: "(string \<times> target_configuration) list"
  project_metadata :: "target_groups option"

text \<open>
  The result of \<^verbatim>\<open>createNodesInternal\<close> is \<^verbatim>\<open>{}\<close> or
  \<^verbatim>\<open>{ projects: { [projectRoot]: ... } }\<close>: the list of its project entries.
\<close>

type_synonym create_nodes_result = "(string \<times> project_configuration) list"

type_synonym targets_cache = "(string \<times> php_unit_targets) list"

text \<open>What the module can throw while it processes one configuration file.\<close>

datatype error =
    ReaddirError string
  | ReadFileError string
  | MatchError string string
  | TypeError string

text \<open>
  The surroundings of one run: the working directory of the process, the
  \<^verbatim>\<open>CreateNodesContext\<close>, and what the file system and the host's helpers answer.
  \<^item> \<open>readdirSync\<close>: the entries of a directory, \<open>None\<close> when the call throws;
  \<^item> \<open>readComposerJson\<close>: the \<^verbatim>\<open>name\<close> of the parsed manifest
    (\<^verbatim>\<open>JSON.parse(readFileSync(path).toString())\<close>), \<open>None\<close> when reading or
    parsing throws;
  \<^item> \<open>readPhpUnitConfig\<close>: \<^verbatim>\<open>parser.parse(readFileSync(path).toString())\<close>,
    \<open>None\<close> when it throws;
  \<^item> \<open>getNamedInputs\<close>: the keys of the named inputs of a project root;
  \<^item> \<open>getFilesInDirectoryUsingContext\<close>: the files of the workspace under a directory;
  \<^item> \<open>minimatch\<close>: the glob matcher applied to a path and a pattern, \<open>None\<close> when it
    throws;
  \<^item> \<open>calculateHashForCreateNodes\<close>, \<open>hashObject\<close>: the host's hashes;
  \<^item> \<open>cacheFiles\<close>: the store files on disk, by path: \<open>None\<close> when
    \<^verbatim>\<open>existsSync\<close> is false, \<open>Some None\<close> when the file exists and
    \<^verbatim>\<open>readJsonFile\<close> throws, \<open>Some (Some c)\<close> when it holds the store \<open>c\<close>.
\<close>

record workspace =
  cwd :: string
  workspaceRoot :: string
  workspaceDataDirectory :: string
  readdirSync :: "string \<Rightarrow> string list option"
  readComposerJson :: "string \<Rightarrow> string option option"
  readPhpUnitConfig :: "string \<Rightarrow> php_unit_configuration option"
  getNamedInputs :: "string \<Rightarrow> string list"
  getFilesInDirectoryUsingContext :: "string \<Rightarrow> string list"
  minimatch :: "string \<Rightarrow> string \<Rightarrow> bool option"
  calculateHashForCreateNodes :: "string \<Rightarrow> normalized_options \<Rightarrow> string"
  hashObject :: "php_unit_plugin_options \<Rightarrow> string"
  cacheFiles :: "string \<Rightarrow> targets_cache option option"

section \<open>The functions of the plugin\<close>

text \<open>JavaScript truthiness of a \<^verbatim>\<open>string | undefined\<close>.\<close>

fun truthy :: "string option \<Rightarrow> bool" where
  "truthy None = False"
| "truthy (Some s) = (s \<noteq> [])"

definition normalizeOptions :: "php_unit_plugin_options \<Rightarrow> normalized_options" where
  "normalizeOptions options =
     \<lparr>targetName = (case opt_targetName options of None \<Rightarrow> ''test'' | Some t \<Rightarrow> t),
      ciTargetName = (case opt_ciTargetName options of None \<Rightarrow> Some ''test-ci'' | Some c \<Rightarrow> Some c)\<rparr>"

definition getTestOutput :: "php_unit_configuration \<Rightarrow> string" where
  "getTestOutput phpUnitConfig =
     (if truthy (cacheResultFile phpUnitConfig) then the (cacheResultFile phpUnitConfig)
      else ''.phpunit.cache/test-results'')"

definition getCoverageOutput :: "php_unit_configuration \<Rightarrow> string option" where
  "getCoverageOutput phpUnitConfig =
     (case coverage phpUnitConfig of None \<Rightarrow> None | Some c \<Rightarrow> cacheDirectory c)"

definition addSubfolderToOutput :: "string \<Rightarrow> string option \<Rightarrow> string" where
  "addSubfolderToOutput output subfolder =
     (if \<not> truthy subfolder then output
      else let parts = parse output
           in if ext parts \<noteq> [] then join [dir parts, the subfolder, base parts]
              else join [output, the subfolder])"

definition normalizeOutput :: "string \<Rightarrow> string \<Rightarrow> string \<Rightarrow> string \<Rightarrow> string" where
  "normalizeOutput wd path wsRoot projectRoot =
     (let fullProjectRoot = resolve wd [wsRoot, projectRoot];
          fullPath = resolve wd [fullProjectRoot, path];
          pathRelativeToProjectRoot = normalizePath (relative wd fullProjectRoot fullPath)
      in if startsWith pathRelativeToProjectRoot ''..''
         then joinPathFragments [''{workspaceRoot}'', relative wd wsRoot fullPath]
         else joinPathFragments [''{projectRoot}'', pathRelativeToProjectRoot])"

text \<open>\<^verbatim>\<open>Set.prototype.add\<close> on a set kept in insertion order.\<close>

definition setAdd :: "'a \<Rightarrow> 'a list \<Rightarrow> 'a list" where
  "setAdd x xs = (if x \<in> set xs then xs else xs @ [x])"

definition getTargetOutputs ::
  "string \<Rightarrow> string \<Rightarrow> string option \<Rightarrow> string \<Rightarrow> string \<Rightarrow> string option \<Rightarrow> string list" where
  "getTargetOutputs wd testOutput coverageOutput wsRoot projectRoot subFolder =
     (let outputs = setAdd (normalizeOutput wd (addSubfolderToOutput testOutput subFolder)
                              wsRoot projectRoot) []
      in if truthy coverageOutput
         then setAdd (normalizeOutput wd (addSubfolderToOutput (the coverageOutput) subFolder)
                        wsRoot projectRoot) outputs
         else outputs)"

text \<open>
  \<^verbatim>\<open>forEachTestFile\<close>: the files under the directory are enumerated by the host and
  the callback runs on those the matcher accepts, in enumeration order. The matcher of
  \<^verbatim>\<open>createMatcher('**/*Test.php')\<close> rethrows what \<^verbatim>\<open>minimatch\<close> throws, with the path
  and the pattern in the message. \<open>st\<close> is what the callback mutates.
\<close>

definition testFilePattern :: string where
  "testFilePattern = ''**/*Test.php''"

fun forEachFile :: "workspace \<Rightarrow> (string \<Rightarrow> 's \<Rightarrow> 's) \<Rightarrow> string list \<Rightarrow> 's \<Rightarrow> error + 's" where
  "forEachFile w cb [] st = Inr st"
| "forEachFile w cb (file # files) st =
     (case minimatch w file testFilePattern of
        None \<Rightarrow> Inl (MatchError file testFilePattern)
      | Some True \<Rightarrow> forEachFile w cb files (cb file st)
      | Some False \<Rightarrow> forEachFile w cb files st)"

definition forEachTestFile :: "workspace \<Rightarrow> (string \<Rightarrow> 's \<Rightarrow> 's) \<Rightarrow> string \<Rightarrow> 's \<Rightarrow> error + 's" where
  "forEachTestFile w cb path st = forEachFile w cb (getFilesInDirectoryUsingContext w path) st"

text \<open>The pieces of \<^verbatim>\<open>buildPhpUnitTargets\<close>.\<close>

definition phpunitHelp :: target_help where
  "phpunitHelp = \<lparr>help_command = ''./vendor/bin/phpunit --help'', help_example_args = [''--colors'']\<rparr>"

definition baseTargetConfig :: target_configuration where
  "baseTargetConfig =
     \<lparr>command = Some ''./vendor/bin/phpunit'',
      options_cwd = Some ''{projectRoot}'',
      executor = None, cache = None, inputs = None, outputs = None, dependsOn = None,
      parallelism = Some False,
      target_metadata = Some \<lparr>technologies = [''php''], description = ''Runs PHPUnit Tests'',
                              nonAtomizedTarget = None, target_help = phpunitHelp\<rparr>\<rparr>"

definition targetInputs :: "string list \<Rightarrow> string list" where
  "targetInputs namedInputs =
     (if ''production'' \<in> set namedInputs then [''default'', ''^production'']
      else [''default'', ''^default''])"

text \<open>
  \<^verbatim>\<open>relative(projectRoot, testFile).replace(/[\/\\]/g, '-').replace(/\./g, '-')\<close>.
\<close>

definition sanitizeSubfolder :: "string \<Rightarrow> string" where
  "sanitizeSubfolder rel =
     map (\<lambda>c. if c = CHR ''.'' then CHR ''-'' else c)
       (map (\<lambda>c. if c = slash \<or> c = backslash then CHR ''-'' else c) rel)"

text \<open>
  The state the callback of \<^verbatim>\<open>forEachTestFile\<close> mutates: the targets, the target
  group and the dependencies of the aggregator.
\<close>

record ci_state =
  st_targets :: "(string \<times> target_configuration) list"
  st_ciTargetGroup :: "string list"
  st_dependsOn :: "target_dependency list"

definition ciFileTarget ::
  "workspace \<Rightarrow> string \<Rightarrow> target_configuration \<Rightarrow> string \<Rightarrow> string option \<Rightarrow> string \<Rightarrow>
   target_configuration" where
  "ciFileTarget w projectRoot ciBaseTargetConfig testOutput coverageOutput testFile =
     (let outputSubfolder = sanitizeSubfolder (relative (cwd w) projectRoot testFile);
          relativeSpecFilePath = normalizePath (relative (cwd w) projectRoot testFile)
      in ciBaseTargetConfig
           \<lparr>outputs := Some (getTargetOutputs (cwd w) testOutput coverageOutput (workspaceRoot w)
                               projectRoot (Some outputSubfolder)),
            command := Some (the (command baseTargetConfig) @ '' '' @ relativeSpecFilePath),
            target_metadata := Some
              \<lparr>technologies = [''php''],
               description = ''Runs PHPUnit Tests in '' @ relativeSpecFilePath @ '' in CI'',
               nonAtomizedTarget = None, target_help = phpunitHelp\<rparr>\<rparr>)"

definition ciFileTargetName :: "workspace \<Rightarrow> string \<Rightarrow> string \<Rightarrow> string \<Rightarrow> string" where
  "ciFileTargetName w ci projectRoot testFile =
     ci @ ''--'' @ normalizePath (relative (cwd w) projectRoot testFile)"

definition ciCallback ::
  "workspace \<Rightarrow> string \<Rightarrow> string \<Rightarrow> target_configuration \<Rightarrow> string \<Rightarrow> string option \<Rightarrow>
   string \<Rightarrow> ci_state \<Rightarrow> ci_state" where
  "ciCallback w ci projectRoot ciBaseTargetConfig testOutput coverageOutput testFile st =
     (let tName = ciFileTargetName w ci projectRoot testFile
      in \<lparr>st_targets = AList.update tName
             (ciFileTarget w projectRoot ciBaseTargetConfig testOutput coverageOutput testFile)
             (st_targets st),
          st_ciTargetGroup = st_ciTargetGroup st @ [tName],
          st_dependsOn = st_dependsOn st @
             [\<lparr>dep_target = tName, dep_projects = ''self'', dep_params = ''forward''\<rparr>]\<rparr>)"

definition emptyTarget :: target_configuration where
  "emptyTarget =
     \<lparr>command = None, options_cwd = None, executor = None, cache = None, inputs = None,
      outputs = None, dependsOn = None, parallelism = None, target_metadata = None\<rparr>"

definition aggregatorTarget ::
  "target_configuration \<Rightarrow> target_dependency list \<Rightarrow> string \<Rightarrow> target_configuration" where
  "aggregatorTarget ciBaseTargetConfig deps tName =
     \<lparr>command = None, options_cwd = None,
      executor = Some ''nx:noop'',
      cache = cache ciBaseTargetConfig,
      inputs = inputs ciBaseTargetConfig,
      outputs = outputs ciBaseTargetConfig,
      dependsOn = Some deps,
      parallelism = Some False,
      target_metadata = Some \<lparr>technologies = [''php''], description = ''Runs PHPUnit Tests in CI'',
                              nonAtomizedTarget = Some tName, target_help = phpunitHelp\<rparr>\<rparr>"

definition groupName :: string where
  "groupName = ''Test (CI)''"

text \<open>
  The test directory, \<^verbatim>\<open>phpUnitConfig.phpunit.testsuites.testsuite.directory ?
  joinPathFragments(projectRoot, ...) : projectRoot\<close>. Reading a property of
  \<^verbatim>\<open>undefined\<close> throws a \<^verbatim>\<open>TypeError\<close> (its argument here is the property read),
  and so does \<^verbatim>\<open>joinPathFragments\<close> on a truthy value that is not a string.
\<close>

definition testDirOf :: "string \<Rightarrow> php_unit_configuration \<Rightarrow> error + string" where
  "testDirOf projectRoot phpUnitConfig =
     (case phpunit phpUnitConfig of
        None \<Rightarrow> Inl (TypeError ''testsuites'')
      | Some rootElement \<Rightarrow>
          (case testsuites rootElement of
             None \<Rightarrow> Inl (TypeError ''testsuite'')
           | Some suites \<Rightarrow>
               (case testsuite suites of
                  None \<Rightarrow> Inl (TypeError ''directory'')
                | Some (TestsuiteList l) \<Rightarrow> Inr projectRoot
                | Some (Testsuite suite) \<Rightarrow>
                    (case directory suite of
                       None \<Rightarrow> Inr projectRoot
                     | Some (JsString d) \<Rightarrow>
                         (if d \<noteq> [] then Inr (joinPathFragments [projectRoot, d])
                          else Inr projectRoot)
                     | Some (JsOther isTruthy) \<Rightarrow>
                         (if isTruthy then Inl (TypeError ''path'') else Inr projectRoot)))))"

definition buildPhpUnitTargets ::
  "workspace \<Rightarrow> string \<Rightarrow> string \<Rightarrow> normalized_options \<Rightarrow> error + php_unit_targets" where
  "buildPhpUnitTargets w configFilePath projectRoot options =
     (case readPhpUnitConfig w (join [workspaceRoot w, configFilePath]) of
        None \<Rightarrow> Inl (ReadFileError (join [workspaceRoot w, configFilePath]))
      | Some phpUnitConfig \<Rightarrow>
          let namedInputs = getNamedInputs w projectRoot;
              testOutput = getTestOutput phpUnitConfig;
              coverageOutput = getCoverageOutput phpUnitConfig;
              baseOutputs = getTargetOutputs (cwd w) testOutput coverageOutput (workspaceRoot w)
                              projectRoot None;
              targets0 = AList.update (targetName options)
                           (baseTargetConfig\<lparr>cache := Some True,
                                             inputs := Some (targetInputs namedInputs),
                                             outputs := Some baseOutputs\<rparr>) []
          in if truthy (ciTargetName options)
             then let ci = the (ciTargetName options);
                      ciBaseTargetConfig = baseTargetConfig\<lparr>cache := Some True,
                                             inputs := Some (targetInputs namedInputs),
                                             outputs := Some baseOutputs\<rparr>
                  in (case testDirOf projectRoot phpUnitConfig of
                        Inl e \<Rightarrow> Inl e
                      | Inr testDir \<Rightarrow>
                          (case forEachTestFile w
                                  (ciCallback w ci projectRoot ciBaseTargetConfig testOutput
                                     coverageOutput)
                                  testDir
                                  \<lparr>st_targets = targets0, st_ciTargetGroup = [],
                                   st_dependsOn = []\<rparr> of
                             Inl e \<Rightarrow> Inl e
                           | Inr st \<Rightarrow>
                               (let targets1 = (if map_of (st_targets st) ci = None
                                               then AList.update ci emptyTarget (st_targets st)
                                               else st_targets st);
                                    targets2 = AList.update ci
                                                (aggregatorTarget ciBaseTargetConfig
                                                   (st_dependsOn st) (targetName options)) targets1
                                in Inr \<lparr>targets = targets2,
                                        metadata =
                                          Some [(groupName, st_ciTargetGroup st @ [ci])]\<rparr>)))
             else Inr \<lparr>targets = targets0, metadata = None\<rparr>)"

text \<open>
  \<^verbatim>\<open>createNodesInternal\<close>. The store \<^verbatim>\<open>targetsCache\<close> is mutated in place by
  \<^verbatim>\<open>targetsCache[hash] ??= await buildPhpUnitTargets(...)\<close>; the model returns it. When
  the function throws, the store is as it was.
\<close>

definition lookupOrBuild ::
  "targets_cache \<Rightarrow> string \<Rightarrow> error + php_unit_targets \<Rightarrow> error + (php_unit_targets \<times> targets_cache)" where
  "lookupOrBuild targetsCache hash build =
     (case map_of targetsCache hash of
        Some cached \<Rightarrow> Inr (cached, targetsCache)
      | None \<Rightarrow>
          (case build of
             Inl e \<Rightarrow> Inl e
           | Inr built \<Rightarrow> Inr (built, AList.update hash built targetsCache)))"

definition projectOf :: "string \<Rightarrow> string option \<Rightarrow> php_unit_targets \<Rightarrow> create_nodes_result" where
  "projectOf projectRoot composerName entry =
     [(projectRoot,
       \<lparr>project_name = composerName,
        project_root = projectRoot,
        project_targets = targets entry,
        project_metadata = metadata entry\<rparr>)]"

definition createNodesInternal ::
  "workspace \<Rightarrow> string \<Rightarrow> php_unit_plugin_options \<Rightarrow> targets_cache \<Rightarrow>
   error + (create_nodes_result \<times> targets_cache)" where
  "createNodesInternal w configFilePath options targetsCache =
     (let projectRoot = dirname configFilePath
      in case readdirSync w (join [workspaceRoot w, projectRoot]) of
           None \<Rightarrow> Inl (ReaddirError (join [workspaceRoot w, projectRoot]))
         | Some siblingFiles \<Rightarrow>
             (if ''composer.json'' \<notin> set siblingFiles then Inr ([], targetsCache)
              else
                (let normalizedOptions = normalizeOptions options
                 in (case readComposerJson w
                            (join [workspaceRoot w, projectRoot, ''composer.json'']) of
                       None \<Rightarrow>
                         Inl (ReadFileError (join [workspaceRoot w, projectRoot, ''composer.json'']))
                     | Some composerName \<Rightarrow>
                         (let hash = calculateHashForCreateNodes w projectRoot normalizedOptions
                          in (case lookupOrBuild targetsCache hash
                                     (buildPhpUnitTargets w configFilePath projectRoot
                                        normalizedOptions) of
                                Inl e \<Rightarrow> Inl e
                              | Inr (entry, targetsCache') \<Rightarrow>
                                  Inr (projectOf projectRoot composerName entry,
                                       targetsCache')))))))"

text \<open>
  \<^verbatim>\<open>createNodesFromFiles\<close> of the host calls the function on every file, collects the
  results and the errors, and throws the aggregate of the errors (with the partial results)
  when there is one. The files share the store; they are processed here one after the other.
\<close>

record batch_outcome =
  batch_results :: "(string \<times> create_nodes_result) list"
  batch_errors :: "(string \<times> error) list"
  batch_cache :: targets_cache

fun createNodesFromFilesLoop ::
  "(string \<Rightarrow> targets_cache \<Rightarrow> error + (create_nodes_result \<times> targets_cache)) \<Rightarrow>
   string list \<Rightarrow> targets_cache \<Rightarrow> batch_outcome" where
  "createNodesFromFilesLoop createNodes [] c =
     \<lparr>batch_results = [], batch_errors = [], batch_cache = c\<rparr>"
| "createNodesFromFilesLoop createNodes (file # files) c =
     (case createNodes file c of
        Inl e \<Rightarrow>
          (let r = createNodesFromFilesLoop createNodes files c
           in r\<lparr>batch_errors := (file, e) # batch_errors r\<rparr>)
      | Inr (v, c') \<Rightarrow>
          (let r = createNodesFromFilesLoop createNodes files c'
           in r\<lparr>batch_results := (file, v) # batch_results r\<rparr>))"

datatype entry_error =
    AggregateCreateNodesError "(string \<times> error) list" "(string \<times> create_nodes_result) list"
  | StoreReadError error

definition createNodesFromFiles ::
  "(string \<Rightarrow> targets_cache \<Rightarrow> error + (create_nodes_result \<times> targets_cache)) \<Rightarrow>
   string list \<Rightarrow> targets_cache \<Rightarrow>
   (entry_error + (string \<times> create_nodes_result) list) \<times> targets_cache" where
  "createNodesFromFiles createNodes configFiles c =
     (let r = createNodesFromFilesLoop createNodes configFiles c
      in (if batch_errors r \<noteq> []
          then Inl (AggregateCreateNodesError (batch_errors r) (batch_results r))
          else Inr (batch_results r),
          batch_cache r))"

text \<open>
  \<^verbatim>\<open>readTargetsCache\<close>, \<^verbatim>\<open>writeTargetsToCache\<close> and the entry point
  \<^verbatim>\<open>createNodesV2\<close>. The calls of \<^verbatim>\<open>writeJsonFile\<close> are logged in order. The store
  is read before the \<^verbatim>\<open>try\<close> statement; the \<^verbatim>\<open>finally\<close> block runs after the
  \<^verbatim>\<open>try\<close> block, whatever its outcome.
\<close>

type_synonym write_log = "(string \<times> targets_cache) list"

definition readTargetsCache :: "workspace \<Rightarrow> string \<Rightarrow> error + targets_cache" where
  "readTargetsCache w cachePath =
     (case cacheFiles w cachePath of
        None \<Rightarrow> Inr []
      | Some None \<Rightarrow> Inl (ReadFileError cachePath)
      | Some (Some c) \<Rightarrow> Inr c)"

definition writeTargetsToCache :: "string \<Rightarrow> targets_cache \<Rightarrow> write_log \<Rightarrow> write_log" where
  "writeTargetsToCache cachePath results log = log @ [(cachePath, results)]"

definition noOptions :: php_unit_plugin_options where
  "noOptions = \<lparr>opt_targetName = None, opt_ciTargetName = None\<rparr>"

definition orEmpty :: "php_unit_plugin_options option \<Rightarrow> php_unit_plugin_options" where
  "orEmpty options = (case options of None \<Rightarrow> noOptions | Some opts \<Rightarrow> opts)"

definition cachePathOf :: "workspace \<Rightarrow> php_unit_plugin_options option \<Rightarrow> string" where
  "cachePathOf w options =
     join [workspaceDataDirectory w, ''phpUnit-'' @ hashObject w (orEmpty options) @ ''.hash'']"

definition createNodesV2 ::
  "workspace \<Rightarrow> string list \<Rightarrow> php_unit_plugin_options option \<Rightarrow> write_log \<Rightarrow>
   (entry_error + (string \<times> create_nodes_result) list) \<times> write_log" where
  "createNodesV2 w configFilePaths options log =
     (let cachePath = cachePathOf w options
      in case readTargetsCache w cachePath of
           Inl e \<Rightarrow> (Inl (StoreReadError e), log)
         | Inr targetsCache \<Rightarrow>
             (case createNodesFromFiles
                     (\<lambda>configFile. createNodesInternal w configFile (orEmpty options))
                     configFilePaths targetsCache of
                (outcome, targetsCache') \<Rightarrow>
                  (outcome, writeTargetsToCache cachePath targetsCache' log)))"

text \<open>
  The base target of a project, as \<^verbatim>\<open>buildPhpUnitTargets\<close> assembles it (twice: for
  \<^verbatim>\<open>targets[options.targetName]\<close> and for \<^verbatim>\<open>ciBaseTargetConfig\<close>).
\<close>

definition baseTarget :: "workspace \<Rightarrow> string \<Rightarrow> php_unit_configuration \<Rightarrow> target_configuration" where
  "baseTarget w projectRoot phpUnitConfig =
     baseTargetConfig
       \<lparr>cache := Some True,
        inputs := Some (targetInputs (getNamedInputs w projectRoot)),
        outputs := Some (getTargetOutputs (cwd w) (getTestOutput phpUnitConfig)
                           (getCoverageOutput phpUnitConfig) (workspaceRoot w) projectRoot None)\<rparr>"

section \<open>An example workspace\<close>

text \<open>
  A workspace at \<^verbatim>\<open>/ws\<close> with one project, \<^verbatim>\<open>example\<close>, that has a manifest and a
  configuration file, and one directory, \<^verbatim>\<open>fixture\<close>, that has a configuration file and no
  manifest. The parsed configuration of the project and the files of the workspace are
  parameters. The configuration files are \<^verbatim>\<open>phpunit.xml\<close> documents with one test
  suite \<^verbatim>\<open>unit\<close> whose \<^verbatim>\<open>directory\<close> is \<^verbatim>\<open>tests\<close>; one of them also declares
  \<^verbatim>\<open>cacheResultFile="custom/out.cache"\<close> on its root, another has the child
  \<^verbatim>\<open><coverage cacheDirectory="coverage"/>\<close>. Two more have no usable test suite: one has
  no element \<^verbatim>\<open>testsuites\<close>, in the other the directory carries an attribute,
  \<^verbatim>\<open><directory suffix="Test.php">tests</directory>\<close>, and so parses to an object. The
  matcher accepts what the pattern \<^verbatim>\<open>**/*Test.php\<close> accepts: a path whose last segment
  ends in \<^verbatim>\<open>Test.php\<close> and none of whose segments begins with a dot. The
  hashes are stand-ins that keep their arguments apart.
\<close>

definition endsWith :: "string \<Rightarrow> string \<Rightarrow> bool" where
  "endsWith s p = (length p \<le> length s \<and> drop (length s - length p) s = p)"

definition globTestPhp :: "string \<Rightarrow> bool" where
  "globTestPhp path =
     (endsWith (lastSegment path) ''Test.php'' \<and>
      list_all (\<lambda>seg. \<not> startsWith seg ''.'') (splitOn slash path))"

definition optionsKey :: "string option \<Rightarrow> string" where
  "optionsKey v = (case v of None \<Rightarrow> ''-'' | Some s \<Rightarrow> ''+'' @ s)"

definition exampleWorkspace :: "php_unit_configuration \<Rightarrow> string list \<Rightarrow> workspace" where
  "exampleWorkspace config files =
     \<lparr>cwd = ''/ws'',
      workspaceRoot = ''/ws'',
      workspaceDataDirectory = ''/ws/.nx/workspace-data'',
      readdirSync = (\<lambda>p. if p = ''/ws/example'' then Some [''composer.json'', ''phpunit.xml'', ''tests'']
                         else if p = ''/ws/fixture'' then Some [''phpunit.xml'']
                         else None),
      readComposerJson = (\<lambda>p. if p = ''/ws/example/composer.json'' then Some (Some ''acme/example'')
                              else None),
      readPhpUnitConfig = (\<lambda>p. if p = ''/ws/example/phpunit.xml'' then Some config else None),
      getNamedInputs = (\<lambda>p. [''default'', ''production'']),
      getFilesInDirectoryUsingContext = (\<lambda>d. filter (\<lambda>f. startsWith f (d @ ''/'')) files),
      minimatch = (\<lambda>path pattern. if pattern = testFilePattern then Some (globTestPhp path) else None),
      calculateHashForCreateNodes = (\<lambda>p opts. p @ ''|'' @ targetName opts @ ''|'' @
                                       optionsKey (ciTargetName opts)),
      hashObject = (\<lambda>opts. optionsKey (opt_targetName opts) @ ''|'' @
                      optionsKey (opt_ciTargetName opts)),
      cacheFiles = (\<lambda>p. None)\<rparr>"

definition plainRoot :: phpunit_element where
  "plainRoot =
     \<lparr>root_cacheResultFile = None,
      root_coverage = None,
      testsuites = Some \<lparr>testsuite = Some (Testsuite
        \<lparr>suite_name = Some ''unit'', directory = Some (JsString ''tests'')\<rparr>)\<rparr>\<rparr>"

definition plainConfig :: php_unit_configuration where
  "plainConfig = documentOf plainRoot"

definition customCacheRoot :: phpunit_element where
  "customCacheRoot = plainRoot\<lparr>root_cacheResultFile := Some ''custom/out.cache''\<rparr>"

definition coverageRoot :: phpunit_element where
  "coverageRoot = plainRoot\<lparr>root_coverage := Some \<lparr>cacheDirectory = Some ''coverage''\<rparr>\<rparr>"

definition noTestsuitesRoot :: phpunit_element where
  "noTestsuitesRoot = \<lparr>root_cacheResultFile = None, root_coverage = None, testsuites = None\<rparr>"

definition attributedDirectoryRoot :: phpunit_element where
  "attributedDirectoryRoot =
     \<lparr>root_cacheResultFile = None,
      root_coverage = None,
      testsuites = Some \<lparr>testsuite = Some (Testsuite
        \<lparr>suite_name = Some ''unit'', directory = Some (JsOther True)\<rparr>)\<rparr>\<rparr>"

definition exampleFiles :: "string list" where
  "exampleFiles =
     [''example/composer.json'', ''example/phpunit.xml'', ''example/tests/FooTest.php'',
      ''example/tests/sub/BarTest.php'', ''example/tests/bootstrap.php'']"

text \<open>Projections of results, for statements about concrete runs.\<close>

definition targetNamesOf :: "error + php_unit_targets \<Rightarrow> string list option" where
  "targetNamesOf r = (case r of Inl e \<Rightarrow> None | Inr t \<Rightarrow> Some (map fst (targets t)))"

definition outputsOf :: "error + php_unit_targets \<Rightarrow> string \<Rightarrow> string list option" where
  "outputsOf r n =
     (case r of Inl e \<Rightarrow> None
      | Inr t \<Rightarrow> (case map_of (targets t) n of None \<Rightarrow> None | Some tc \<Rightarrow> outputs tc))"

definition emptyCiOptions :: php_unit_plugin_options where
  "emptyCiOptions = \<lparr>opt_targetName = None, opt_ciTargetName = Some []\<rparr>"

definition aggregatorOf :: "error + php_unit_targets \<Rightarrow> string \<Rightarrow> target_configuration option" where
  "aggregatorOf r n = (case r of Inl e \<Rightarrow> None | Inr t \<Rightarrow> map_of (targets t) n)"


text \<open>
  Names for statements about the batch: the function the entry point hands to
  \<^verbatim>\<open>createNodesFromFiles\<close>; the key and the content of the store entry of a
  configuration file; the condition that, over the files of a batch, equal keys stand for
  equal values; processing a file with a store of its own that starts empty, which always
  recomputes; the workspace after the logged writes have reached the disk; and a store all of
  whose entries are what the builder computes for the files of the batch.
\<close>

definition processFile :: "workspace \<Rightarrow> php_unit_plugin_options option \<Rightarrow> string \<Rightarrow> targets_cache \<Rightarrow>
   error + (create_nodes_result \<times> targets_cache)" where
  "processFile w options = (\<lambda>configFile. createNodesInternal w configFile (orEmpty options))"

definition hashOf :: "workspace \<Rightarrow> php_unit_plugin_options option \<Rightarrow> string \<Rightarrow> string" where
  "hashOf w options configFilePath =
     calculateHashForCreateNodes w (dirname configFilePath) (normalizeOptions (orEmpty options))"

definition buildOf :: "workspace \<Rightarrow> php_unit_plugin_options option \<Rightarrow> string \<Rightarrow> error + php_unit_targets" where
  "buildOf w options configFilePath =
     buildPhpUnitTargets w configFilePath (dirname configFilePath) (normalizeOptions (orEmpty options))"

definition keysConsistent :: "workspace \<Rightarrow> php_unit_plugin_options option \<Rightarrow> string list \<Rightarrow> bool" where
  "keysConsistent w options files =
     (\<forall>f \<in> set files. \<forall>g \<in> set files.
        hashOf w options f = hashOf w options g \<longrightarrow> buildOf w options f = buildOf w options g)"

definition recomputeFile :: "workspace \<Rightarrow> php_unit_plugin_options option \<Rightarrow> string \<Rightarrow> targets_cache \<Rightarrow>
   error + (create_nodes_result \<times> targets_cache)" where
  "recomputeFile w options configFile c =
     (case processFile w options configFile [] of
        Inl e \<Rightarrow> Inl e
      | Inr (v, c') \<Rightarrow> Inr (v, c))"

definition afterWrites :: "workspace \<Rightarrow> write_log \<Rightarrow> workspace" where
  "afterWrites w log =
     w\<lparr>cacheFiles := fold (\<lambda>(p, c) files. files(p := Some (Some c))) log (cacheFiles w)\<rparr>"

definition soundFor :: "workspace \<Rightarrow> php_unit_plugin_options option \<Rightarrow> string list \<Rightarrow> targets_cache \<Rightarrow> bool" where
  "soundFor w options files c =
     (\<forall>h v. map_of c h = Some v \<longrightarrow>
        (\<forall>f \<in> set files. hashOf w options f = h \<longrightarrow> buildOf w options f = Inr v))"

definition noTestFiles :: "string list" where
  "noTestFiles = [''example/composer.json'', ''example/phpunit.xml'', ''example/tests/bootstrap.php'']"

definition corruptStoreWorkspace :: workspace where
  "corruptStoreWorkspace = (exampleWorkspace plainConfig exampleFiles)\<lparr>cacheFiles := (\<lambda>p. Some None)\<rparr>"

definition batchFiles :: "string list" where
  "batchFiles = [''example/phpunit.xml'', ''fixture/phpunit.xml'', ''gone/phpunit.xml'']"

text \<open>
  A segment a normalised path is made of: not empty, not \<^verbatim>\<open>.\<close>, not \<^verbatim>\<open>..\<close>, and
  without a slash. The characters the sanitisation of a subfolder token cannot tell apart.
  And further inputs for statements about concrete runs.
\<close>

definition normalSeg :: "string \<Rightarrow> bool" where
  "normalSeg s = (s \<noteq> [] \<and> s \<noteq> ''.'' \<and> s \<noteq> ''..'' \<and> slash \<notin> set s)"

definition separatorLike :: "char \<Rightarrow> bool" where
  "separatorLike c = (c = slash \<or> c = backslash \<or> c = CHR ''.'' \<or> c = CHR ''-'')"

definition collidingFiles :: "string list" where
  "collidingFiles =
     [''example/composer.json'', ''example/phpunit.xml'', ''example/tests/a/bTest.php'',
      ''example/tests/a-bTest.php'']"

text \<open>
  The intermediate values of \<^verbatim>\<open>normalizeOutput\<close>: \<^verbatim>\<open>fullPath\<close>, and the path
  relative to the project root (before \<^verbatim>\<open>normalizePath\<close>) and to the workspace root.
\<close>

definition fullPathOf :: "string \<Rightarrow> string \<Rightarrow> string \<Rightarrow> string \<Rightarrow> string" where
  "fullPathOf wd path wsRoot projectRoot = resolve wd [resolve wd [wsRoot, projectRoot], path]"

definition relativeToProjectRoot :: "string \<Rightarrow> string \<Rightarrow> string \<Rightarrow> string \<Rightarrow> string" where
  "relativeToProjectRoot wd path wsRoot projectRoot =
     relative wd (resolve wd [wsRoot, projectRoot]) (fullPathOf wd path wsRoot projectRoot)"

definition relativeToWorkspaceRoot :: "string \<Rightarrow> string \<Rightarrow> string \<Rightarrow> string \<Rightarrow> string" where
  "relativeToWorkspaceRoot wd path wsRoot projectRoot =
     relative wd wsRoot (fullPathOf wd path wsRoot projectRoot)"

section \<open>Paths\<close>

text \<open>
  The model of the path primitives computes what the documentation of Node.js and of the
  host give as examples (the working directory of the third example is
  \<^verbatim>\<open>/home/myself/node\<close>).
\<close>

lemma path_examples:
  "dirname ''/foo/bar/baz/asdf/quux'' = ''/foo/bar/baz/asdf''"
  "join [''/foo'', ''bar'', ''baz/asdf'', ''quux'', ''..''] = ''/foo/bar/baz/asdf''"
  "resolve ''/home/myself/node'' [''wwwroot'', ''static_files/png/'', ''../gif/image.gif''] =
     ''/home/myself/node/wwwroot/static_files/gif/image.gif''"
  "resolve ''/home/myself/node'' [''/foo/bar'', ''/tmp/file/''] = ''/tmp/file''"
  "relative ''/'' ''/data/orandea/test/aaa'' ''/data/orandea/impl/bbb'' = ''../../impl/bbb''"
  "normalize ''/foo/bar//baz/asdf/quux/..'' = ''/foo/bar/baz/asdf''"
  "parse ''/home/user/dir/file.txt'' =
     \<lparr>root = ''/'', dir = ''/home/user/dir'', base = ''file.txt'', ext = ''.txt'', name = ''file''\<rparr>"
  "normalizePath (''C:'' @ [backslash] @ ''some'' @ [backslash] @ ''path'') = ''/some/path''"
  "joinPathFragments [''apps/shop'', ''tests''] = ''apps/shop/tests''"
  by code_simp+

lemma splitOn_nonempty: "splitOn c s \<noteq> []"
  by (induction s) (auto split: list.splits)

lemma splitOn_append: "splitOn c (a @ c # b) = splitOn c a @ splitOn c b"
proof (induction a)
  case Nil
  then show ?case by simp
next
  case (Cons x a)
  then show ?case
    using splitOn_nonempty[of c a] by (cases "splitOn c a") auto
qed

lemma splitOn_no_sep: "c \<notin> set s \<Longrightarrow> splitOn c s = [s]"
  by (induction s) auto

lemma splitOn_parts: "s \<in> set (splitOn c p) \<Longrightarrow> c \<notin> set s"
proof (induction p arbitrary: s)
  case Nil
  then show ?case by simp
next
  case (Cons x p)
  then show ?case
    using splitOn_nonempty[of c p] by (cases "splitOn c p") (auto split: if_splits)
qed

lemma splitOn_joinWith:
  "ss \<noteq> [] \<Longrightarrow> \<forall>s \<in> set ss. c \<notin> set s \<Longrightarrow> splitOn c (joinWith [c] ss) = ss"
proof (induction "[c]" ss rule: joinWith.induct)
  case 1
  then show ?case by simp
next
  case (2 s)
  then show ?case by (simp add: splitOn_no_sep)
next
  case (3 s t ss)
  then show ?case by (simp add: splitOn_append splitOn_no_sep)
qed

lemma joinWith_splitOn: "joinWith [c] (splitOn c s) = s"
proof (induction s)
  case Nil
  then show ?case by simp
next
  case (Cons x s)
  then show ?case
    using splitOn_nonempty[of c s]
    by (cases "splitOn c s"; cases "tl (splitOn c s)") auto
qed

lemma joinWith_Cons: "joinWith sep (s # ss) = s @ (if ss = [] then [] else sep @ joinWith sep ss)"
  by (cases ss) auto

lemma normalizeSegments_clean:
  "\<forall>s \<in> set ss. s = [] \<or> normalSeg s \<Longrightarrow>
   normalizeSegments a res ss = res @ filter (\<lambda>s. s \<noteq> []) ss"
  by (induction ss arbitrary: res) (auto simp: normalSeg_def)

lemma normalizeSegments_normal:
  "\<forall>s \<in> set ss. slash \<notin> set s \<Longrightarrow> \<forall>s \<in> set res. normalSeg s \<Longrightarrow>
   \<forall>s \<in> set (normalizeSegments False res ss). normalSeg s"
proof (induction ss arbitrary: res)
  case Nil
  then show ?case by simp
next
  case (Cons s ss)
  have bl: "\<forall>s \<in> set (butlast res). normalSeg s"
    using Cons.prems(2) by (auto dest: in_set_butlastD)
  have ap: "normalSeg s \<Longrightarrow> \<forall>x \<in> set (res @ [s]). normalSeg x"
    using Cons.prems(2) by auto
  from Cons.prems(1) have ss: "\<forall>s \<in> set ss. slash \<notin> set s" and s: "slash \<notin> set s" by auto
  show ?case
  proof (cases "s = [] \<or> s = ''.''")
    case True
    then show ?thesis using Cons.IH[OF ss Cons.prems(2)] by auto
  next
    case False
    show ?thesis
    proof (cases "s = ''..''")
      case True
      then show ?thesis using Cons.IH[OF ss Cons.prems(2)] Cons.IH[OF ss bl] by auto
    next
      case notdd: False
      with False s have "normalSeg s" by (simp add: normalSeg_def)
      from Cons.IH[OF ss ap[OF this]] False notdd show ?thesis by auto
    qed
  qed
qed

lemma segments_of_joined:
  assumes "\<forall>s \<in> set ss. normalSeg s"
  shows "filter (\<lambda>s. s \<noteq> []) (splitOn slash (joinWith ''/'' ss)) = ss"
proof (cases "ss = []")
  case True
  then show ?thesis by simp
next
  case False
  with assms have "splitOn slash (joinWith ''/'' ss) = ss"
    using splitOn_joinWith[of ss slash] by (auto simp: normalSeg_def)
  moreover from assms have "filter (\<lambda>s. s \<noteq> []) ss = ss"
    by (auto simp: normalSeg_def filter_id_conv)
  ultimately show ?thesis by simp
qed

lemma resolveLoop_absolute:
  "isAbsolute wd \<Longrightarrow> snd (resolveLoop (ps @ [wd]) acc) = True"
  by (induction ps arbitrary: acc) (auto simp: isAbsolute_def)

lemma resolve_absolute:
  assumes "isAbsolute wd"
  shows "\<exists>segs. (\<forall>s \<in> set segs. normalSeg s) \<and> resolve wd args = ''/'' @ joinWith ''/'' segs"
proof -
  obtain rp where rp: "resolveLoop (rev args @ [wd]) [] = (rp, True)"
    using resolveLoop_absolute[OF assms, of "rev args" "[]"]
    by (cases "resolveLoop (rev args @ [wd]) []") auto
  let ?segs = "normalizeSegments False [] (splitOn slash rp)"
  have "\<forall>s \<in> set ?segs. normalSeg s"
    by (rule normalizeSegments_normal) (auto dest: splitOn_parts)
  moreover have "resolve wd args = ''/'' @ joinWith ''/'' ?segs"
    by (simp add: resolve_def rp normalizeString_def)
  ultimately show ?thesis by blast
qed

lemma split_rooted:
  assumes "\<forall>s \<in> set ss. normalSeg s"
  shows "normalizeSegments a [] (splitOn slash (''/'' @ joinWith ''/'' ss @ ''/'' @ rest)) =
         normalizeSegments a ss (splitOn slash rest)"
proof -
  have n: "\<forall>s \<in> set ([] # splitOn slash (joinWith ''/'' ss)). s = [] \<or> normalSeg s"
  proof (cases "ss = []")
    case True
    then show ?thesis by simp
  next
    case False
    with assms have "splitOn slash (joinWith ''/'' ss) = ss"
      using splitOn_joinWith[of ss slash] by (auto simp: normalSeg_def)
    with assms show ?thesis by simp
  qed
  have sp: "splitOn slash (''/'' @ joinWith ''/'' ss @ ''/'' @ rest) =
            ([] # splitOn slash (joinWith ''/'' ss)) @ splitOn slash rest"
    using splitOn_append[of slash "joinWith ''/'' ss" rest] by simp
  have nseg: "normalizeSegments a res (xs @ ys) = normalizeSegments a (res @ filter (\<lambda>s. s \<noteq> []) xs) ys"
    if "\<forall>s \<in> set xs. s = [] \<or> normalSeg s" for res xs ys
    using that by (induction xs arbitrary: res) (auto simp: normalSeg_def)
  show ?thesis
    unfolding sp using nseg[OF n, of "[]" "splitOn slash rest"] segments_of_joined[OF assms]
    by simp
qed

lemma resolve_normal_absolute:
  assumes "\<forall>s \<in> set ss. normalSeg s"
  shows "resolve wd [''/'' @ joinWith ''/'' ss] = ''/'' @ joinWith ''/'' ss"
proof -
  have "resolveLoop (rev [''/'' @ joinWith ''/'' ss] @ [wd]) [] =
          (''/'' @ joinWith ''/'' ss @ ''/'' @ [], True)"
    by simp
  moreover have "normalizeSegments False [] (splitOn slash (''/'' @ joinWith ''/'' ss @ ''/'' @ [])) = ss"
    unfolding split_rooted[OF assms] by simp
  ultimately show ?thesis
    by (simp add: resolve_def normalizeString_def del: resolveLoop.simps)
qed

lemma normalSegD:
  assumes "normalSeg s"
  shows "s \<noteq> []" "slash \<notin> set s" "hd s \<noteq> slash" "last s \<noteq> slash"
proof -
  from assms show ne: "s \<noteq> []" and ns: "slash \<notin> set s" by (simp_all add: normalSeg_def)
  from ne ns show "hd s \<noteq> slash" by (metis hd_in_set)
  from ne ns show "last s \<noteq> slash" by (metis last_in_set)
qed

lemma joinWith_normal_last:
  "\<forall>s \<in> set ps. normalSeg s \<Longrightarrow> ps \<noteq> [] \<Longrightarrow>
   joinWith ''/'' ps \<noteq> [] \<and> last (joinWith ''/'' ps) \<noteq> slash \<and> hd (joinWith ''/'' ps) \<noteq> slash"
proof (induction "''/''" ps rule: joinWith.induct)
  case 1
  then show ?case by simp
next
  case (2 s)
  then show ?case using normalSegD[of s] by simp
next
  case (3 s t ss)
  then show ?case using normalSegD[of s] by (simp add: hd_append)
qed

lemma normal_nonempty: "\<forall>s \<in> set ps. normalSeg s \<Longrightarrow> filter (\<lambda>s. s \<noteq> []) ps = ps"
  by (induction ps) (simp_all add: normalSeg_def)

lemma normal_no_slash: "\<forall>s \<in> set ps. normalSeg s \<Longrightarrow> \<forall>s \<in> set ps. slash \<notin> set s"
  by (simp add: normalSeg_def)

lemma resolve_below:
  assumes r: "\<forall>s \<in> set rs. normalSeg s" and p: "\<forall>s \<in> set ps. normalSeg s" and ne: "ps \<noteq> []"
  shows "resolve wd [''/'' @ joinWith ''/'' rs, joinWith ''/'' ps] = ''/'' @ joinWith ''/'' (rs @ ps)"
proof -
  let ?P = "joinWith ''/'' ps"
  from joinWith_normal_last[OF p ne] have hdp: "?P \<noteq> []" "hd ?P \<noteq> slash" by simp_all
  have loop: "resolveLoop (rev [''/'' @ joinWith ''/'' rs, ?P] @ [wd]) [] =
          (''/'' @ joinWith ''/'' rs @ ''/'' @ ?P @ ''/'', True)"
    using hdp by simp
  have "splitOn slash (?P @ slash # []) = splitOn slash ?P @ splitOn slash []"
    by (rule splitOn_append)
  moreover have "splitOn slash ?P = ps"
    using splitOn_joinWith[OF ne normal_no_slash[OF p]] by simp
  ultimately have sp: "splitOn slash (?P @ ''/'') = ps @ [[]]" by simp
  have cl: "\<forall>s \<in> set (ps @ [[]]). s = [] \<or> normalSeg s" using p by simp
  have "normalizeSegments False [] (splitOn slash (''/'' @ joinWith ''/'' rs @ ''/'' @ ?P @ ''/'')) =
        rs @ ps"
    unfolding split_rooted[OF r] sp normalizeSegments_clean[OF cl]
    by (simp add: normal_nonempty[OF p])
  with loop show ?thesis
    by (simp add: resolve_def normalizeString_def del: resolveLoop.simps)
qed

lemma segmentsOf_rooted:
  "\<forall>s \<in> set ss. normalSeg s \<Longrightarrow> segmentsOf (''/'' @ joinWith ''/'' ss) = ss"
  unfolding segmentsOf_def
  using segments_of_joined[of ss] by simp

lemma dropCommon_prefix: "dropCommon xs (xs @ ys) = ([], ys)"
  by (induction xs) simp_all

lemma relative_below:
  assumes r: "\<forall>s \<in> set rs. normalSeg s" and p: "\<forall>s \<in> set ps. normalSeg s" and ne: "ps \<noteq> []"
  shows "relative wd (''/'' @ joinWith ''/'' rs) (''/'' @ joinWith ''/'' (rs @ ps)) = joinWith ''/'' ps"
proof -
  let ?R = "''/'' @ joinWith ''/'' rs" and ?T = "''/'' @ joinWith ''/'' (rs @ ps)"
  from r p have rp: "\<forall>s \<in> set (rs @ ps). normalSeg s" by auto
  have neq: "?R \<noteq> ?T"
  proof
    assume "?R = ?T"
    then have "segmentsOf ?R = segmentsOf ?T" by simp
    with segmentsOf_rooted[OF r] segmentsOf_rooted[OF rp] ne show False by simp
  qed
  have dc: "dropCommon (segmentsOf ?R) (segmentsOf ?T) = ([], ps)"
    unfolding segmentsOf_rooted[OF r] segmentsOf_rooted[OF rp] by (rule dropCommon_prefix)
  show ?thesis
    unfolding relative_def resolve_normal_absolute[OF r] resolve_normal_absolute[OF rp] Let_def dc
    using neq by simp
qed

lemma map_replace_absent: "c \<notin> set p \<Longrightarrow> map (\<lambda>x. if x = c then d else x) p = p"
  by (induction p) auto

lemma normalizePath_plain:
  "backslash \<notin> set p \<Longrightarrow> removeWindowsDriveLetter p = p \<Longrightarrow> normalizePath p = p"
  by (simp add: normalizePath_def map_replace_absent)

lemma join_token:
  assumes t: "normalSeg tok" and p: "\<forall>s \<in> set ps. normalSeg s" and ne: "ps \<noteq> []"
  shows "join [tok, joinWith ''/'' ps] = tok @ ''/'' @ joinWith ''/'' ps"
proof -
  let ?P = "joinWith ''/'' ps"
  from joinWith_normal_last[OF p ne] have P: "?P \<noteq> []" "last ?P \<noteq> slash" by simp_all
  from t have tk: "tok \<noteq> []" "hd tok \<noteq> slash" "slash \<notin> set tok"
    by (auto simp: normalSeg_def dest: hd_in_set)
  from t p have all: "\<forall>s \<in> set (tok # ps). s = [] \<or> normalSeg s" by simp
  have sp: "splitOn slash (tok @ ''/'' @ ?P) = tok # ps"
    using splitOn_append[of slash tok ?P] splitOn_joinWith[of ps slash] tk p ne
    by (auto simp: splitOn_no_sep normalSeg_def)
  have ns: "normalizeString (tok @ ''/'' @ ?P) True = tok @ ''/'' @ ?P"
    unfolding normalizeString_def sp normalizeSegments_clean[OF all]
    using t p ne by (cases ps) (auto simp: normalSeg_def filter_id_conv)
  have nz: "normalize (tok @ ''/'' @ ?P) = tok @ ''/'' @ ?P"
    using tk P ns by (simp add: normalize_def isAbsolute_def Let_def hd_append)
  show ?thesis
    using tk P nz by (simp add: join_def)
qed

lemma normalizeOutput_inside:
  assumes wd: "isAbsolute wd" and p: "\<forall>s \<in> set ps. normalSeg s" and ne: "ps \<noteq> []"
    and nb: "backslash \<notin> set (joinWith ''/'' ps)"
    and nd: "removeWindowsDriveLetter (joinWith ''/'' ps) = joinWith ''/'' ps"
    and nu: "\<not> startsWith (joinWith ''/'' ps) ''..''"
  shows "normalizeOutput wd (joinWith ''/'' ps) wsRoot projectRoot =
           ''{projectRoot}/'' @ joinWith ''/'' ps"
proof -
  let ?P = "joinWith ''/'' ps"
  from resolve_absolute[OF wd, of "[wsRoot, projectRoot]"] obtain rs where
    rs: "\<forall>s \<in> set rs. normalSeg s" and
    fr: "resolve wd [wsRoot, projectRoot] = ''/'' @ joinWith ''/'' rs" by blast
  have fp: "resolve wd [resolve wd [wsRoot, projectRoot], ?P] = ''/'' @ joinWith ''/'' (rs @ ps)"
    unfolding fr by (rule resolve_below[OF rs p ne])
  have rel: "relative wd (resolve wd [wsRoot, projectRoot])
               (resolve wd [resolve wd [wsRoot, projectRoot], ?P]) = ?P"
    unfolding fp unfolding fr by (rule relative_below[OF rs p ne])
  have np: "normalizePath ?P = ?P" by (rule normalizePath_plain[OF nb nd])
  have tok: "normalSeg ''{projectRoot}''" by (simp add: normalSeg_def)
  have jn: "join [''{projectRoot}'', ?P] = ''{projectRoot}'' @ ''/'' @ ?P"
    by (rule join_token[OF tok p ne])
  have "normalizePath (''{projectRoot}'' @ ''/'' @ ?P) = ''{projectRoot}/'' @ ?P"
    using nb by (simp add: normalizePath_def isUpper_def map_replace_absent)
  then show ?thesis
    unfolding normalizeOutput_def Let_def rel np joinPathFragments_def jn using nu by simp
qed

lemma normalizeOutput_custom:
  "isAbsolute wd \<Longrightarrow>
   normalizeOutput wd ''custom/out.cache'' wsRoot projectRoot = ''{projectRoot}/custom/out.cache''"
  using normalizeOutput_inside[of wd "[''custom'', ''out.cache'']" wsRoot projectRoot]
  by (simp add: normalSeg_def startsWith_def)

lemma normalSeg_plain:
  "k \<noteq> [] \<Longrightarrow> CHR ''.'' \<notin> set k \<Longrightarrow> slash \<notin> set k \<Longrightarrow> normalSeg k"
  unfolding normalSeg_def by (cases k) auto

lemma sanitizeSubfolder_chars:
  "slash \<notin> set (sanitizeSubfolder r)" "backslash \<notin> set (sanitizeSubfolder r)"
  "CHR ''.'' \<notin> set (sanitizeSubfolder r)"
  by (auto simp: sanitizeSubfolder_def)

lemma normalSeg_coverage: "normalSeg ''coverage''"
  by (simp add: normalSeg_def)

lemma ext_coverage: "ext (parse ''coverage'') = []"
  by code_simp

lemma normalizeOutput_coverage:
  assumes "isAbsolute wd"
  shows "normalizeOutput wd ''coverage'' wsRoot projectRoot = ''{projectRoot}/coverage''"
  using normalizeOutput_inside[OF assms, of "[''coverage'']" wsRoot projectRoot] normalSeg_coverage
  by (simp add: startsWith_def isUpper_def)

lemma normalizeOutput_coverage_token:
  assumes wd: "isAbsolute wd" and k: "k \<noteq> []" "CHR ''.'' \<notin> set k" "slash \<notin> set k"
    "backslash \<notin> set k"
  shows "normalizeOutput wd (addSubfolderToOutput ''coverage'' (Some k)) wsRoot projectRoot =
           ''{projectRoot}/coverage/'' @ k"
proof -
  have nk: "normalSeg k" by (rule normalSeg_plain[OF k(1,2,3)])
  have j: "join [''coverage'', joinWith ''/'' [k]] = ''coverage'' @ ''/'' @ joinWith ''/'' [k]"
    by (rule join_token[OF normalSeg_coverage]) (simp_all add: nk)
  have a: "addSubfolderToOutput ''coverage'' (Some k) = joinWith ''/'' [''coverage'', k]"
    using k(1) j by (simp add: addSubfolderToOutput_def ext_coverage Let_def)
  have "normalizeOutput wd (joinWith ''/'' [''coverage'', k]) wsRoot projectRoot =
          ''{projectRoot}/'' @ joinWith ''/'' [''coverage'', k]"
    by (rule normalizeOutput_inside[OF wd])
       (use k nk normalSeg_coverage in \<open>simp_all add: startsWith_def isUpper_def\<close>)
  then show ?thesis unfolding a by simp
qed

lemma getTargetOutputs_base:
  assumes "isAbsolute wd"
  shows "getTargetOutputs wd tout (Some ''coverage'') wsRoot projectRoot None =
           setAdd ''{projectRoot}/coverage'' [normalizeOutput wd tout wsRoot projectRoot]"
  by (simp add: getTargetOutputs_def addSubfolderToOutput_def normalizeOutput_coverage[OF assms]
        setAdd_def)

lemma getTargetOutputs_token:
  assumes "isAbsolute wd"
  shows "getTargetOutputs wd tout (Some ''coverage'') wsRoot projectRoot
           (Some (sanitizeSubfolder r)) =
         (if sanitizeSubfolder r = []
          then setAdd ''{projectRoot}/coverage'' [normalizeOutput wd tout wsRoot projectRoot]
          else setAdd (''{projectRoot}/coverage/'' @ sanitizeSubfolder r)
                 [normalizeOutput wd (addSubfolderToOutput tout (Some (sanitizeSubfolder r)))
                    wsRoot projectRoot])"
proof (cases "sanitizeSubfolder r = []")
  case True
  then show ?thesis
    by (simp add: getTargetOutputs_def addSubfolderToOutput_def normalizeOutput_coverage[OF assms]
          setAdd_def)
next
  case False
  from normalizeOutput_coverage_token[OF assms False sanitizeSubfolder_chars(3,1,2)]
  show ?thesis using False
    by (simp add: getTargetOutputs_def setAdd_def)
qed

lemma normalizeOutput_unfold:
  "normalizeOutput wd path wsRoot projectRoot =
     (if startsWith (normalizePath (relativeToProjectRoot wd path wsRoot projectRoot)) ''..''
      then joinPathFragments [''{workspaceRoot}'', relativeToWorkspaceRoot wd path wsRoot projectRoot]
      else joinPathFragments
             [''{projectRoot}'', normalizePath (relativeToProjectRoot wd path wsRoot projectRoot)])"
  by (simp add: normalizeOutput_def Let_def relativeToProjectRoot_def relativeToWorkspaceRoot_def
        fullPathOf_def)

lemma normalizePath_no_backslash: "backslash \<notin> set (normalizePath p)"
  by (auto simp: normalizePath_def)

lemma dropCommon_rest: "dropCommon xs ys = (fr, tr) \<Longrightarrow> set tr \<subseteq> set ys"
  by (induction xs ys rule: dropCommon.induct) (auto split: if_splits)

lemma relative_shape:
  assumes "isAbsolute wd"
  shows "\<exists>k tr. (\<forall>s \<in> set tr. normalSeg s) \<and>
                relative wd a b = joinWith ''/'' (replicate k ''..'' @ tr)"
proof -
  from resolve_absolute[OF assms, of "[a]"] obtain as where
    as: "\<forall>s \<in> set as. normalSeg s" "resolve wd [a] = ''/'' @ joinWith ''/'' as" by blast
  from resolve_absolute[OF assms, of "[b]"] obtain bs where
    bs: "\<forall>s \<in> set bs. normalSeg s" "resolve wd [b] = ''/'' @ joinWith ''/'' bs" by blast
  obtain fr tr where dc: "dropCommon as bs = (fr, tr)" by (cases "dropCommon as bs")
  from dropCommon_rest[OF dc] bs(1) have tr: "\<forall>s \<in> set tr. normalSeg s" by blast
  have empty: "[] = joinWith ''/'' (replicate 0 ''..'' @ [])" by simp
  show ?thesis
  proof (cases "a = b \<or> resolve wd [a] = resolve wd [b]")
    case True
    then have "relative wd a b = []" by (auto simp: relative_def Let_def)
    with empty show ?thesis by (metis empty_iff list.set(1))
  next
    case False
    then have "relative wd a b = joinWith ''/'' (replicate (length fr) ''..'' @ tr)"
      unfolding relative_def Let_def as(2) bs(2) segmentsOf_rooted[OF as(1)]
        segmentsOf_rooted[OF bs(1)] dc
      using as(2) bs(2) by simp
    with tr show ?thesis by blast
  qed
qed

lemma joinWith_up: "\<exists>y. joinWith ''/'' (replicate (Suc k) ''..'' @ tr) = ''..'' @ y"
  by (simp add: joinWith_Cons)

lemma removeDrive_up: "removeWindowsDriveLetter (''..'' @ y) = ''..'' @ y"
  by (simp add: isUpper_def)

lemma removeDrive_append:
  "s \<noteq> [] \<Longrightarrow> t = [] \<or> hd t = slash \<Longrightarrow>
   removeWindowsDriveLetter (s @ t) = removeWindowsDriveLetter s @ t"
  by (cases s; cases "tl s"; cases t) auto

lemma removeDrive_subset: "set (removeWindowsDriveLetter s) \<subseteq> set s"
  by (cases s; cases "tl s") auto

lemma normalizeSegments_after_token:
  assumes tok: "normalSeg tok" and s: "s' \<noteq> ''..''" "slash \<notin> set s'"
    and rest: "\<forall>s \<in> set rest. normalSeg s"
  shows "\<exists>xs. normalizeSegments True [] (tok # s' # rest) = tok # xs"
proof -
  from tok have t: "tok \<noteq> []" "tok \<noteq> ''.''" "tok \<noteq> ''..''" by (simp_all add: normalSeg_def)
  from rest have cl: "\<forall>s \<in> set rest. s = [] \<or> normalSeg s" by simp
  have first: "normalizeSegments True [] (tok # s' # rest) = normalizeSegments True [tok] (s' # rest)"
    using t by simp
  show ?thesis
  proof (cases "s' = [] \<or> s' = ''.''")
    case True
    then have "normalizeSegments True [tok] (s' # rest) = normalizeSegments True [tok] rest"
      by auto
    with first normalizeSegments_clean[OF cl, of True "[tok]"] show ?thesis by simp
  next
    case False
    with s(1) have "normalizeSegments True [tok] (s' # rest) = normalizeSegments True ([tok] @ [s']) rest"
      by simp
    with first normalizeSegments_clean[OF cl, of True "[tok] @ [s']"] show ?thesis by simp
  qed
qed

lemma join_token_prefix:
  assumes tok: "normalSeg tok" and s: "s' \<noteq> ''..''" "slash \<notin> set s'"
    and rest: "\<forall>s \<in> set rest. normalSeg s"
    and ne: "joinWith ''/'' (s' # rest) \<noteq> []"
  shows "\<exists>y. join [tok, joinWith ''/'' (s' # rest)] = tok @ y"
proof -
  let ?P = "joinWith ''/'' (s' # rest)"
  from normalSegD[OF tok] have tk: "tok \<noteq> []" "slash \<notin> set tok" "hd tok \<noteq> slash" by simp_all
  have noslash: "\<forall>x \<in> set (s' # rest). slash \<notin> set x"
    using s(2) normal_no_slash[OF rest] by simp
  have "splitOn slash (tok @ slash # ?P) = splitOn slash tok @ splitOn slash ?P"
    by (rule splitOn_append)
  moreover have "splitOn slash ?P = s' # rest"
    using splitOn_joinWith[of "s' # rest" slash] noslash by simp
  ultimately have sp: "splitOn slash (tok @ ''/'' @ ?P) = tok # s' # rest"
    using tk by (simp add: splitOn_no_sep)
  from normalizeSegments_after_token[OF tok s rest] obtain xs where
    xs: "normalizeSegments True [] (tok # s' # rest) = tok # xs" by blast
  have ns: "normalizeString (tok @ ''/'' @ ?P) True = tok @ (if xs = [] then [] else ''/'' @ joinWith ''/'' xs)"
    unfolding normalizeString_def sp xs by (simp add: joinWith_Cons)
  have "\<exists>y. normalize (tok @ ''/'' @ ?P) = tok @ y"
    using tk ns by (simp add: normalize_def isAbsolute_def Let_def hd_append)
  then show ?thesis
    using tk ne by (simp add: join_def)
qed

lemma join_token_only:
  "joinPathFragments [''{projectRoot}'', []] = ''{projectRoot}''"
  "joinPathFragments [''{workspaceRoot}'', []] = ''{workspaceRoot}''"
  by code_simp+

lemma normalizePath_keeps_token:
  "startsWith (normalizePath (''{projectRoot}'' @ y)) ''{projectRoot}''"
  "startsWith (normalizePath (''{workspaceRoot}'' @ y)) ''{workspaceRoot}''"
  by (simp_all add: normalizePath_def startsWith_def isUpper_def)

lemma normalSeg_tokens: "normalSeg ''{projectRoot}''" "normalSeg ''{workspaceRoot}''"
  by (simp_all add: normalSeg_def)

lemma project_branch:
  assumes wd: "isAbsolute wd"
    and rel: "rel = relative wd a b"
    and nb: "backslash \<notin> set rel"
    and nu: "\<not> startsWith (normalizePath rel) ''..''"
  shows "startsWith (joinPathFragments [''{projectRoot}'', normalizePath rel]) ''{projectRoot}''"
proof -
  from relative_shape[OF wd, of a b] rel obtain k tr where
    tr: "\<forall>s \<in> set tr. normalSeg s" and sh: "rel = joinWith ''/'' (replicate k ''..'' @ tr)"
    by auto
  have np: "normalizePath rel = removeWindowsDriveLetter rel"
    using nb removeDrive_subset[of rel] by (auto simp: normalizePath_def intro: map_replace_absent)
  have k0: "k = 0"
  proof (rule ccontr)
    assume "k \<noteq> 0"
    then obtain k' where "k = Suc k'" by (cases k) auto
    with sh joinWith_up[of k' tr] obtain y where "rel = ''..'' @ y" by auto
    with np removeDrive_up[of y] have "normalizePath rel = ''..'' @ y" by simp
    with nu show False by (simp add: startsWith_def)
  qed
  show ?thesis
  proof (cases "normalizePath rel = []")
    case True
    then show ?thesis by (simp add: join_token_only startsWith_def)
  next
    case False
    with np have rne: "rel \<noteq> []" by auto
    with sh k0 obtain s rest where tr': "tr = s # rest" by (cases tr) auto
    let ?t = "if rest = [] then [] else ''/'' @ joinWith ''/'' rest"
    from sh k0 tr' have r1: "rel = s @ ?t" by (simp add: joinWith_Cons)
    from tr tr' have s: "normalSeg s" and rest: "\<forall>x \<in> set rest. normalSeg x" by auto
    have "removeWindowsDriveLetter (s @ ?t) = removeWindowsDriveLetter s @ ?t"
      by (rule removeDrive_append) (use normalSegD[OF s] in auto)
    with np r1 have p: "normalizePath rel = joinWith ''/'' (removeWindowsDriveLetter s # rest)"
      by (simp add: joinWith_Cons)
    have ns: "slash \<notin> set (removeWindowsDriveLetter s)"
      using removeDrive_subset[of s] normalSegD(2)[OF s] by blast
    have nd: "removeWindowsDriveLetter s \<noteq> ''..''"
    proof
      assume "removeWindowsDriveLetter s = ''..''"
      with p have "normalizePath rel = ''..'' @ ?t" by (simp add: joinWith_Cons)
      with nu show False by (simp add: startsWith_def)
    qed
    from join_token_prefix[OF normalSeg_tokens(1) nd ns rest] False p
    obtain y where "join [''{projectRoot}'', normalizePath rel] = ''{projectRoot}'' @ y" by auto
    then show ?thesis
      unfolding joinPathFragments_def by (simp only: normalizePath_keeps_token)
  qed
qed

lemma workspace_branch:
  assumes wd: "isAbsolute wd"
    and rel: "rel = relative wd a b"
    and nu: "hd (splitOn slash rel) \<noteq> ''..''"
  shows "startsWith (joinPathFragments [''{workspaceRoot}'', rel]) ''{workspaceRoot}''"
proof -
  from relative_shape[OF wd, of a b] rel obtain k tr where
    tr: "\<forall>s \<in> set tr. normalSeg s" and sh: "rel = joinWith ''/'' (replicate k ''..'' @ tr)"
    by auto
  have k0: "k = 0"
  proof (rule ccontr)
    assume "k \<noteq> 0"
    then obtain k' where k: "k = Suc k'" by (cases k) auto
    have "\<forall>x \<in> set (replicate k ''..'' @ tr). slash \<notin> set x"
      using normal_no_slash[OF tr] by auto
    with k have "splitOn slash (joinWith ''/'' (replicate k ''..'' @ tr)) = replicate k ''..'' @ tr"
      using splitOn_joinWith[of "replicate k ''..'' @ tr" slash] by simp
    with sh k nu show False by simp
  qed
  show ?thesis
  proof (cases "tr = []")
    case True
    with sh k0 show ?thesis by (simp add: join_token_only startsWith_def)
  next
    case False
    from join_token[OF normalSeg_tokens(2) tr False] sh k0
    have "join [''{workspaceRoot}'', rel] = ''{workspaceRoot}'' @ ''/'' @ rel" by simp
    then show ?thesis
      unfolding joinPathFragments_def by (simp only: normalizePath_keeps_token)
  qed
qed

text \<open>
  What \<^verbatim>\<open>normalizeOutput\<close> does reach, the working directory of the process being
  absolute. Its result never contains a backslash. When the path from the project root
  (\<open>relativeToProjectRoot\<close>, before \<^verbatim>\<open>normalizePath\<close>) contains no backslash and its
  normalised form does not begin with the two characters \<^verbatim>\<open>..\<close>, the result begins with
  \<^verbatim>\<open>{projectRoot}\<close>. When the normalised form begins with \<^verbatim>\<open>..\<close> and the first segment
  of the path from the workspace root (\<open>relativeToWorkspaceRoot\<close>) is not \<^verbatim>\<open>..\<close>, the
  result begins with \<^verbatim>\<open>{workspaceRoot}\<close>.
\<close>

lemma normalizeOutput_tokens:
  assumes "isAbsolute wd"
  shows "backslash \<notin> set (normalizeOutput wd path wsRoot projectRoot) \<and>
         (\<not> startsWith (normalizePath (relativeToProjectRoot wd path wsRoot projectRoot)) ''..'' \<and>
          backslash \<notin> set (relativeToProjectRoot wd path wsRoot projectRoot) \<longrightarrow>
            startsWith (normalizeOutput wd path wsRoot projectRoot) ''{projectRoot}'') \<and>
         (startsWith (normalizePath (relativeToProjectRoot wd path wsRoot projectRoot)) ''..'' \<and>
          hd (splitOn slash (relativeToWorkspaceRoot wd path wsRoot projectRoot)) \<noteq> ''..'' \<longrightarrow>
            startsWith (normalizeOutput wd path wsRoot projectRoot) ''{workspaceRoot}'')"
proof (intro conjI impI)
  show "backslash \<notin> set (normalizeOutput wd path wsRoot projectRoot)"
    unfolding normalizeOutput_unfold joinPathFragments_def
    using normalizePath_no_backslash by (simp del: backslash_def)
next
  assume a: "\<not> startsWith (normalizePath (relativeToProjectRoot wd path wsRoot projectRoot)) ''..'' \<and>
          backslash \<notin> set (relativeToProjectRoot wd path wsRoot projectRoot)"
  from project_branch[OF assms relativeToProjectRoot_def] a
  have "startsWith (joinPathFragments
          [''{projectRoot}'', normalizePath (relativeToProjectRoot wd path wsRoot projectRoot)])
          ''{projectRoot}''"
    by blast
  with a show "startsWith (normalizeOutput wd path wsRoot projectRoot) ''{projectRoot}''"
    unfolding normalizeOutput_unfold by simp
next
  assume a: "startsWith (normalizePath (relativeToProjectRoot wd path wsRoot projectRoot)) ''..'' \<and>
          hd (splitOn slash (relativeToWorkspaceRoot wd path wsRoot projectRoot)) \<noteq> ''..''"
  from workspace_branch[OF assms relativeToWorkspaceRoot_def] a
  have "startsWith (joinPathFragments
          [''{workspaceRoot}'', relativeToWorkspaceRoot wd path wsRoot projectRoot])
          ''{workspaceRoot}''"
    by blast
  with a show "startsWith (normalizeOutput wd path wsRoot projectRoot) ''{workspaceRoot}''"
    unfolding normalizeOutput_unfold by simp
qed

lemma normalizeOutput_tokens_example:
  "startsWith (normalizeOutput ''/ws'' ''custom/out.cache'' ''/ws'' ''proj'') ''{projectRoot}'' \<and>
   startsWith (normalizeOutput ''/ws'' ''../shared/cache'' ''/ws'' ''proj'') ''{workspaceRoot}'' \<and>
   backslash \<notin> set (normalizeOutput ''/ws'' ''../shared/cache'' ''/ws'' ''proj'')"
proof -
  have a: "isAbsolute ''/ws''" by code_simp
  have p: "\<not> startsWith (normalizePath
               (relativeToProjectRoot ''/ws'' ''custom/out.cache'' ''/ws'' ''proj'')) ''..'' \<and>
           backslash \<notin> set (relativeToProjectRoot ''/ws'' ''custom/out.cache'' ''/ws'' ''proj'')"
    by code_simp
  have q: "startsWith (normalizePath
             (relativeToProjectRoot ''/ws'' ''../shared/cache'' ''/ws'' ''proj'')) ''..'' \<and>
           hd (splitOn slash (relativeToWorkspaceRoot ''/ws'' ''../shared/cache'' ''/ws'' ''proj''))
             \<noteq> ''..''"
    by code_simp
  from normalizeOutput_tokens[OF a, of "''custom/out.cache''" "''/ws''" "''proj''"] p
       normalizeOutput_tokens[OF a, of "''../shared/cache''" "''/ws''" "''proj''"] q
  show ?thesis by blast
qed

text \<open>
  C3 at two outputs, for the workspace root \<^verbatim>\<open>/ws\<close> and the project root \<^verbatim>\<open>proj\<close>.
  The output \<^verbatim>\<open>../../tmp/out\<close> escapes the project root: the result is \<^verbatim>\<open>tmp/out\<close>,
  which begins with neither token. The output \<^verbatim>\<open>..cache/results\<close> resolves to
  \<^verbatim>\<open>/ws/proj/..cache/results\<close>, inside the project root, and its path from the project
  root is \<^verbatim>\<open>..cache/results\<close>: the result begins with \<^verbatim>\<open>{workspaceRoot}\<close> and not with
  \<^verbatim>\<open>{projectRoot}\<close>, since the test \<^verbatim>\<open>startsWith('..')\<close> takes the directory name
  \<^verbatim>\<open>..cache\<close> for a step upwards.
\<close>

theorem normalizeOutput_misses_token:
  "relativeToProjectRoot ''/ws'' ''../../tmp/out'' ''/ws'' ''proj'' = ''../../tmp/out'' \<and>
   normalizeOutput ''/ws'' ''../../tmp/out'' ''/ws'' ''proj'' = ''tmp/out'' \<and>
   \<not> startsWith (normalizeOutput ''/ws'' ''../../tmp/out'' ''/ws'' ''proj'') ''{workspaceRoot}'' \<and>
   \<not> startsWith (normalizeOutput ''/ws'' ''../../tmp/out'' ''/ws'' ''proj'') ''{projectRoot}'' \<and>
   fullPathOf ''/ws'' ''..cache/results'' ''/ws'' ''proj'' = ''/ws/proj/..cache/results'' \<and>
   relativeToProjectRoot ''/ws'' ''..cache/results'' ''/ws'' ''proj'' = ''..cache/results'' \<and>
   normalizeOutput ''/ws'' ''..cache/results'' ''/ws'' ''proj'' =
     ''{workspaceRoot}/proj/..cache/results'' \<and>
   \<not> startsWith (normalizeOutput ''/ws'' ''..cache/results'' ''/ws'' ''proj'') ''{projectRoot}''"
  by code_simp

section \<open>The target builder\<close>

lemma build_without_ci:
  assumes "readPhpUnitConfig w (join [workspaceRoot w, configFilePath]) = Some cfg"
    and "\<not> truthy (ciTargetName options)"
  shows "buildPhpUnitTargets w configFilePath projectRoot options =
           Inr \<lparr>targets = [(targetName options, baseTarget w projectRoot cfg)], metadata = None\<rparr>"
  using assms by (simp add: buildPhpUnitTargets_def baseTarget_def Let_def)



lemma build_with_ci_aggregator:
  assumes "buildPhpUnitTargets w configFilePath projectRoot options = Inr t"
    and "ciTargetName options = Some ci" and "ci \<noteq> []"
  shows "\<exists>agg. map_of (targets t) ci = Some agg \<and> executor agg = Some ''nx:noop'' \<and>
               outputs agg = outputs (baseTarget w projectRoot
                                        (the (readPhpUnitConfig w (join [workspaceRoot w, configFilePath]))))"
    and "metadata t \<noteq> None"
  using assms
  by (auto simp: buildPhpUnitTargets_def Let_def update_conv' aggregatorTarget_def baseTarget_def
           split: option.splits sum.splits)

text \<open>
  C10. A parsed configuration whose \<^verbatim>\<open>cacheResultFile\<close> attribute is present and equal to
  the empty string has the default test-output path \<^verbatim>\<open>.phpunit.cache/test-results\<close>, the
  same as a configuration where the attribute is absent: the reader tests the attribute for
  truthiness, not for presence.
\<close>

theorem getTestOutput_empty_attribute:
  "getTestOutput (cfg\<lparr>cacheResultFile := Some []\<rparr>) = ''.phpunit.cache/test-results'' \<and>
   getTestOutput (cfg\<lparr>cacheResultFile := Some []\<rparr>) = getTestOutput (cfg\<lparr>cacheResultFile := None\<rparr>)"
  by (simp add: getTestOutput_def)

text \<open>
  C1, as the code has it. When \<^verbatim>\<open>ciTargetName\<close> is the empty string, normalisation keeps
  it and the builder emits the base target only: no per-file target, no aggregator, no
  metadata. When \<^verbatim>\<open>ciTargetName\<close> is absent or \<^verbatim>\<open>undefined\<close>, normalisation puts
  the default \<^verbatim>\<open>test-ci\<close> in its place, and every result of the builder has the
  aggregator target \<^verbatim>\<open>test-ci\<close> and a target group.
\<close>

theorem ciTargetName_empty_disables_absent_defaults:
  "(opt_ciTargetName options = Some [] \<and>
    readPhpUnitConfig w (join [workspaceRoot w, configFilePath]) = Some cfg \<longrightarrow>
      buildPhpUnitTargets w configFilePath projectRoot (normalizeOptions options) =
        Inr \<lparr>targets = [(targetName (normalizeOptions options), baseTarget w projectRoot cfg)],
             metadata = None\<rparr>) \<and>
   (opt_ciTargetName options = None \<longrightarrow>
      ciTargetName (normalizeOptions options) = Some ''test-ci'' \<and>
      (\<forall>t. buildPhpUnitTargets w configFilePath projectRoot (normalizeOptions options) = Inr t \<longrightarrow>
           (\<exists>agg. map_of (targets t) ''test-ci'' = Some agg \<and> executor agg = Some ''nx:noop'') \<and>
           metadata t \<noteq> None))"
proof (intro conjI impI allI)
  assume a: "opt_ciTargetName options = Some [] \<and>
    readPhpUnitConfig w (join [workspaceRoot w, configFilePath]) = Some cfg"
  then have "\<not> truthy (ciTargetName (normalizeOptions options))"
    by (simp add: normalizeOptions_def)
  with a show "buildPhpUnitTargets w configFilePath projectRoot (normalizeOptions options) =
        Inr \<lparr>targets = [(targetName (normalizeOptions options), baseTarget w projectRoot cfg)],
             metadata = None\<rparr>"
    by (simp add: build_without_ci)
next
  assume "opt_ciTargetName options = None"
  then show "ciTargetName (normalizeOptions options) = Some ''test-ci''"
    by (simp add: normalizeOptions_def)
next
  fix t
  assume n: "opt_ciTargetName options = None"
    and b: "buildPhpUnitTargets w configFilePath projectRoot (normalizeOptions options) = Inr t"
  from n have c: "ciTargetName (normalizeOptions options) = Some ''test-ci''"
    by (simp add: normalizeOptions_def)
  from build_with_ci_aggregator(1)[OF b c]
  show "\<exists>agg. map_of (targets t) ''test-ci'' = Some agg \<and> executor agg = Some ''nx:noop''"
    by auto
  from build_with_ci_aggregator(2)[OF b c] show "metadata t \<noteq> None" by simp
qed

theorem ciTargetName_empty_disables_absent_defaults_witness:
  "buildPhpUnitTargets (exampleWorkspace plainConfig exampleFiles) ''example/phpunit.xml''
     ''example'' (normalizeOptions emptyCiOptions) =
     Inr \<lparr>targets = [(''test'', baseTarget (exampleWorkspace plainConfig exampleFiles)
                                  ''example'' plainConfig)],
          metadata = None\<rparr> \<and>
   ciTargetName (normalizeOptions noOptions) = Some ''test-ci'' \<and>
   (\<exists>agg. aggregatorOf (buildPhpUnitTargets (exampleWorkspace plainConfig exampleFiles)
                          ''example/phpunit.xml'' ''example'' (normalizeOptions noOptions))
                       ''test-ci'' = Some agg \<and> executor agg = Some ''nx:noop'')"
proof -
  let ?w = "exampleWorkspace plainConfig exampleFiles"
  have r: "readPhpUnitConfig ?w (join [workspaceRoot ?w, ''example/phpunit.xml'']) = Some plainConfig"
    by code_simp
  have e: "opt_ciTargetName emptyCiOptions = Some []" by code_simp
  have tn: "targetName (normalizeOptions emptyCiOptions) = ''test''" by code_simp
  have n: "opt_ciTargetName noOptions = None" by code_simp
  have names: "targetNamesOf (buildPhpUnitTargets ?w ''example/phpunit.xml'' ''example''
                 (normalizeOptions noOptions)) \<noteq> None"
    by code_simp
  then obtain t where
    b: "buildPhpUnitTargets ?w ''example/phpunit.xml'' ''example'' (normalizeOptions noOptions) = Inr t"
    by (auto simp: targetNamesOf_def split: sum.splits)
  from ciTargetName_empty_disables_absent_defaults
         [of emptyCiOptions ?w "''example/phpunit.xml''" plainConfig "''example''"] r e tn
  have first: "buildPhpUnitTargets ?w ''example/phpunit.xml'' ''example''
                 (normalizeOptions emptyCiOptions) =
               Inr \<lparr>targets = [(''test'', baseTarget ?w ''example'' plainConfig)], metadata = None\<rparr>"
    by simp
  from ciTargetName_empty_disables_absent_defaults
         [of noOptions ?w "''example/phpunit.xml''" plainConfig "''example''"] n b
  have second: "ciTargetName (normalizeOptions noOptions) = Some ''test-ci'' \<and>
                (\<exists>agg. map_of (targets t) ''test-ci'' = Some agg \<and> executor agg = Some ''nx:noop'')"
    by simp
  from first second b show ?thesis by (simp add: aggregatorOf_def)
qed

text \<open>
  C1 as stated fails for absent options: with no \<^verbatim>\<open>ciTargetName\<close> at all, the example
  project gets its two per-file targets and the aggregator.
\<close>

theorem ciTargetName_absent_counterexample:
  "opt_ciTargetName noOptions = None \<and>
   targetNamesOf (buildPhpUnitTargets (exampleWorkspace plainConfig exampleFiles)
                    ''example/phpunit.xml'' ''example'' (normalizeOptions noOptions)) =
     Some [''test'', ''test-ci--tests/FooTest.php'', ''test-ci--tests/sub/BarTest.php'', ''test-ci'']"
  by code_simp

text \<open>
  The builder throws on a configuration without a usable test suite once \<^verbatim>\<open>ciTargetName\<close>
  is enabled, and does not look at the test suite when it is disabled.
\<close>

lemma test_directory_type_errors:
  "buildPhpUnitTargets (exampleWorkspace (documentOf noTestsuitesRoot) noTestFiles)
     ''example/phpunit.xml'' ''example'' (normalizeOptions noOptions) =
     Inl (TypeError ''testsuite'') \<and>
   buildPhpUnitTargets (exampleWorkspace (documentOf attributedDirectoryRoot) noTestFiles)
     ''example/phpunit.xml'' ''example'' (normalizeOptions noOptions) =
     Inl (TypeError ''path'') \<and>
   targetNamesOf (buildPhpUnitTargets (exampleWorkspace (documentOf noTestsuitesRoot) noTestFiles)
     ''example/phpunit.xml'' ''example'' (normalizeOptions emptyCiOptions)) = Some [''test'']"
  by code_simp



text \<open>
  C2, at the configuration file that declares \<^verbatim>\<open>cacheResultFile="custom/out.cache"\<close> on
  its root element and has no coverage element. \<^verbatim>\<open>getTestOutput\<close> reads the attribute
  at the top level of the parse result, where no document has it: for every root element
  the test output is the default path. With \<^verbatim>\<open>ciTargetName\<close> disabled (the empty name)
  the builder returns one target, \<^verbatim>\<open>test\<close>, and its outputs are the default path, not
  \<^verbatim>\<open>{projectRoot}/custom/out.cache\<close>; with the options left out, the target \<^verbatim>\<open>test\<close>
  has the same outputs.
\<close>

theorem declared_cache_file_is_not_read:
  "getTestOutput (documentOf rootElement) = ''.phpunit.cache/test-results'' \<and>
   root_cacheResultFile customCacheRoot = Some ''custom/out.cache'' \<and>
   root_coverage customCacheRoot = None \<and>
   targetNamesOf (buildPhpUnitTargets (exampleWorkspace (documentOf customCacheRoot) exampleFiles)
                    ''example/phpunit.xml'' ''example'' (normalizeOptions emptyCiOptions)) =
     Some [''test''] \<and>
   outputsOf (buildPhpUnitTargets (exampleWorkspace (documentOf customCacheRoot) exampleFiles)
                ''example/phpunit.xml'' ''example'' (normalizeOptions emptyCiOptions)) ''test'' =
     Some [''{projectRoot}/.phpunit.cache/test-results''] \<and>
   outputsOf (buildPhpUnitTargets (exampleWorkspace (documentOf customCacheRoot) exampleFiles)
                ''example/phpunit.xml'' ''example'' (normalizeOptions noOptions)) ''test'' =
     Some [''{projectRoot}/.phpunit.cache/test-results'']"
proof -
  have g: "getTestOutput (documentOf rootElement) = ''.phpunit.cache/test-results''"
    by (simp add: getTestOutput_def documentOf_def)
  have e: "root_cacheResultFile customCacheRoot = Some ''custom/out.cache'' \<and>
   root_coverage customCacheRoot = None \<and>
   targetNamesOf (buildPhpUnitTargets (exampleWorkspace (documentOf customCacheRoot) exampleFiles)
                    ''example/phpunit.xml'' ''example'' (normalizeOptions emptyCiOptions)) =
     Some [''test''] \<and>
   outputsOf (buildPhpUnitTargets (exampleWorkspace (documentOf customCacheRoot) exampleFiles)
                ''example/phpunit.xml'' ''example'' (normalizeOptions emptyCiOptions)) ''test'' =
     Some [''{projectRoot}/.phpunit.cache/test-results''] \<and>
   outputsOf (buildPhpUnitTargets (exampleWorkspace (documentOf customCacheRoot) exampleFiles)
                ''example/phpunit.xml'' ''example'' (normalizeOptions noOptions)) ''test'' =
     Some [''{projectRoot}/.phpunit.cache/test-results'']"
    by code_simp
  show ?thesis by (rule conjI[OF g e])
qed

lemma sanitizeSubfolder_map:
  "sanitizeSubfolder p = map (\<lambda>c. if separatorLike c then CHR ''-'' else c) p"
  by (auto simp: sanitizeSubfolder_def separatorLike_def)

text \<open>
  C7, as the code has it. The sanitisation maps \<^verbatim>\<open>/\<close>, \<^verbatim>\<open>\\<close> and \<^verbatim>\<open>.\<close> to
  \<^verbatim>\<open>-\<close> and keeps every other character, so two project-relative paths get the same
  token exactly when they have the same length and, position by position, either hold the
  same character or both hold one of \<^verbatim>\<open>/\<close>, \<^verbatim>\<open>\\<close>, \<^verbatim>\<open>.\<close>, \<^verbatim>\<open>-\<close>. It is
  injective on no larger set of paths.
\<close>

theorem sanitized_tokens_collide_iff:
  "sanitizeSubfolder a = sanitizeSubfolder b \<longleftrightarrow>
     list_all2 (\<lambda>x y. x = y \<or> (separatorLike x \<and> separatorLike y)) a b"
proof -
  have g: "((if separatorLike x then CHR ''-'' else x) = (if separatorLike y then CHR ''-'' else y)) =
           (x = y \<or> (separatorLike x \<and> separatorLike y))" for x y
    by (auto simp: separatorLike_def)
  show ?thesis
    unfolding sanitizeSubfolder_map
    by (induction a arbitrary: b) (case_tac b; simp add: g)+
qed

theorem sanitized_tokens_collide_iff_witness:
  "sanitizeSubfolder ''a/bTest.php'' = sanitizeSubfolder ''a-bTest.php''"
proof -
  have "list_all2 (\<lambda>x y. x = y \<or> (separatorLike x \<and> separatorLike y)) ''a/bTest.php'' ''a-bTest.php''"
    by code_simp
  with sanitized_tokens_collide_iff[of "''a/bTest.php''" "''a-bTest.php''"] show ?thesis by simp
qed

text \<open>
  C7 as stated fails: two distinct test files of the example project, both accepted by the
  matcher and with distinct target names, get the same token and the same outputs.
\<close>

theorem sanitized_tokens_counterexample:
  "''example/tests/a/bTest.php'' \<noteq> ''example/tests/a-bTest.php'' \<and>
   targetNamesOf (buildPhpUnitTargets (exampleWorkspace plainConfig collidingFiles)
                    ''example/phpunit.xml'' ''example'' (normalizeOptions noOptions)) =
     Some [''test'', ''test-ci--tests/a/bTest.php'', ''test-ci--tests/a-bTest.php'', ''test-ci''] \<and>
   sanitizeSubfolder (relative ''/ws'' ''example'' ''example/tests/a/bTest.php'') =
     sanitizeSubfolder (relative ''/ws'' ''example'' ''example/tests/a-bTest.php'') \<and>
   outputsOf (buildPhpUnitTargets (exampleWorkspace plainConfig collidingFiles)
                ''example/phpunit.xml'' ''example'' (normalizeOptions noOptions))
             ''test-ci--tests/a/bTest.php'' =
     Some [''{projectRoot}/.phpunit.cache/test-results/tests-a-bTest-php''] \<and>
   outputsOf (buildPhpUnitTargets (exampleWorkspace plainConfig collidingFiles)
                ''example/phpunit.xml'' ''example'' (normalizeOptions noOptions))
             ''test-ci--tests/a-bTest.php'' =
     Some [''{projectRoot}/.phpunit.cache/test-results/tests-a-bTest-php'']"
  by code_simp

text \<open>
  C8, at the configuration file with the child \<^verbatim>\<open><coverage cacheDirectory="coverage"/>\<close>
  of its root element. \<^verbatim>\<open>getCoverageOutput\<close> reads \<^verbatim>\<open>coverage\<close> at the top level of the
  parse result, where no document has it: for every root element there is no coverage
  output. So the outputs of the base target \<^verbatim>\<open>test\<close>, of the aggregator \<^verbatim>\<open>test-ci\<close>
  and of the two per-file targets hold the test-output path only, and none of them holds
  \<^verbatim>\<open>{projectRoot}/coverage\<close>.
\<close>

theorem declared_coverage_is_not_read:
  "getCoverageOutput (documentOf rootElement) = None \<and>
   root_coverage coverageRoot = Some \<lparr>cacheDirectory = Some ''coverage''\<rparr> \<and>
   targetNamesOf (buildPhpUnitTargets (exampleWorkspace (documentOf coverageRoot) exampleFiles)
                    ''example/phpunit.xml'' ''example'' (normalizeOptions noOptions)) =
     Some [''test'', ''test-ci--tests/FooTest.php'', ''test-ci--tests/sub/BarTest.php'',
           ''test-ci''] \<and>
   outputsOf (buildPhpUnitTargets (exampleWorkspace (documentOf coverageRoot) exampleFiles)
                ''example/phpunit.xml'' ''example'' (normalizeOptions noOptions)) ''test'' =
     Some [''{projectRoot}/.phpunit.cache/test-results''] \<and>
   outputsOf (buildPhpUnitTargets (exampleWorkspace (documentOf coverageRoot) exampleFiles)
                ''example/phpunit.xml'' ''example'' (normalizeOptions noOptions)) ''test-ci'' =
     Some [''{projectRoot}/.phpunit.cache/test-results''] \<and>
   outputsOf (buildPhpUnitTargets (exampleWorkspace (documentOf coverageRoot) exampleFiles)
                ''example/phpunit.xml'' ''example'' (normalizeOptions noOptions))
             ''test-ci--tests/FooTest.php'' =
     Some [''{projectRoot}/.phpunit.cache/test-results/tests-FooTest-php''] \<and>
   outputsOf (buildPhpUnitTargets (exampleWorkspace (documentOf coverageRoot) exampleFiles)
                ''example/phpunit.xml'' ''example'' (normalizeOptions noOptions))
             ''test-ci--tests/sub/BarTest.php'' =
     Some [''{projectRoot}/.phpunit.cache/test-results/tests-sub-BarTest-php'']"
proof -
  have g: "getCoverageOutput (documentOf rootElement) = None"
    by (simp add: getCoverageOutput_def documentOf_def)
  have e: "root_coverage coverageRoot = Some \<lparr>cacheDirectory = Some ''coverage''\<rparr> \<and>
   targetNamesOf (buildPhpUnitTargets (exampleWorkspace (documentOf coverageRoot) exampleFiles)
                    ''example/phpunit.xml'' ''example'' (normalizeOptions noOptions)) =
     Some [''test'', ''test-ci--tests/FooTest.php'', ''test-ci--tests/sub/BarTest.php'',
           ''test-ci''] \<and>
   outputsOf (buildPhpUnitTargets (exampleWorkspace (documentOf coverageRoot) exampleFiles)
                ''example/phpunit.xml'' ''example'' (normalizeOptions noOptions)) ''test'' =
     Some [''{projectRoot}/.phpunit.cache/test-results''] \<and>
   outputsOf (buildPhpUnitTargets (exampleWorkspace (documentOf coverageRoot) exampleFiles)
                ''example/phpunit.xml'' ''example'' (normalizeOptions noOptions)) ''test-ci'' =
     Some [''{projectRoot}/.phpunit.cache/test-results''] \<and>
   outputsOf (buildPhpUnitTargets (exampleWorkspace (documentOf coverageRoot) exampleFiles)
                ''example/phpunit.xml'' ''example'' (normalizeOptions noOptions))
             ''test-ci--tests/FooTest.php'' =
     Some [''{projectRoot}/.phpunit.cache/test-results/tests-FooTest-php''] \<and>
   outputsOf (buildPhpUnitTargets (exampleWorkspace (documentOf coverageRoot) exampleFiles)
                ''example/phpunit.xml'' ''example'' (normalizeOptions noOptions))
             ''test-ci--tests/sub/BarTest.php'' =
     Some [''{projectRoot}/.phpunit.cache/test-results/tests-sub-BarTest-php'']"
    by code_simp
  show ?thesis by (rule conjI[OF g e])
qed

section \<open>The inference entry point\<close>

text \<open>
  C5. A configuration file whose directory can be listed and has no \<^verbatim>\<open>composer.json\<close>
  contributes no project: \<^verbatim>\<open>createNodesInternal\<close> returns the empty result, leaves the
  store alone and does not throw, and the batch records the empty result for the file.
\<close>

theorem skip_without_manifest:
  assumes "readdirSync w (join [workspaceRoot w, dirname configFilePath]) = Some siblingFiles"
    and "''composer.json'' \<notin> set siblingFiles"
  shows "createNodesInternal w configFilePath options targetsCache = Inr ([], targetsCache) \<and>
         createNodesFromFiles (\<lambda>f. createNodesInternal w f options) [configFilePath] targetsCache =
           (Inr [(configFilePath, [])], targetsCache)"
  using assms by (simp add: createNodesInternal_def createNodesFromFiles_def Let_def)

theorem skip_without_manifest_witness:
  "createNodesInternal (exampleWorkspace plainConfig exampleFiles) ''fixture/phpunit.xml'' noOptions [] =
     Inr ([], [])"
proof -
  let ?w = "exampleWorkspace plainConfig exampleFiles"
  have r: "readdirSync ?w (join [workspaceRoot ?w, dirname ''fixture/phpunit.xml'']) = Some [''phpunit.xml'']"
    by code_simp
  have n: "''composer.json'' \<notin> set [''phpunit.xml'']" by code_simp
  from skip_without_manifest[OF r n] show ?thesis by simp
qed

text \<open>
  C6, as the code has it. Once the store has been read, the entry point writes it exactly once,
  after all files have been processed and whatever the outcome of the processing: the write
  log grows by the one entry that holds the store as the batch left it, and the outcome is that
  of \<^verbatim>\<open>createNodesFromFiles\<close>, a result or the aggregate of the errors. When reading
  the store throws, which happens before the \<^verbatim>\<open>try\<close> statement, the entry point
  throws and writes nothing.
\<close>

theorem store_written_once_after_load:
  "(readTargetsCache w (cachePathOf w options) = Inr c \<longrightarrow>
      snd (createNodesV2 w configFilePaths options log) =
        log @ [(cachePathOf w options,
                batch_cache (createNodesFromFilesLoop (processFile w options) configFilePaths c))] \<and>
      fst (createNodesV2 w configFilePaths options log) =
        fst (createNodesFromFiles (processFile w options) configFilePaths c)) \<and>
   (readTargetsCache w (cachePathOf w options) = Inl e \<longrightarrow>
      createNodesV2 w configFilePaths options log = (Inl (StoreReadError e), log))"
  by (simp add: createNodesV2_def createNodesFromFiles_def processFile_def Let_def
        writeTargetsToCache_def)

theorem store_written_once_after_load_witness:
  "snd (createNodesV2 (exampleWorkspace plainConfig exampleFiles) batchFiles None []) =
     [(cachePathOf (exampleWorkspace plainConfig exampleFiles) None,
       batch_cache (createNodesFromFilesLoop
                      (processFile (exampleWorkspace plainConfig exampleFiles) None) batchFiles []))] \<and>
   fst (createNodesV2 (exampleWorkspace plainConfig exampleFiles) batchFiles None []) =
     fst (createNodesFromFiles (processFile (exampleWorkspace plainConfig exampleFiles) None)
            batchFiles []) \<and>
   createNodesV2 corruptStoreWorkspace batchFiles None [] =
     (Inl (StoreReadError (ReadFileError (cachePathOf corruptStoreWorkspace None))), [])"
proof -
  let ?w = "exampleWorkspace plainConfig exampleFiles"
  have r: "readTargetsCache ?w (cachePathOf ?w None) = Inr []" by code_simp
  have r': "readTargetsCache corruptStoreWorkspace (cachePathOf corruptStoreWorkspace None) =
              Inl (ReadFileError (cachePathOf corruptStoreWorkspace None))"
    by code_simp
  from store_written_once_after_load
         [where w = ?w and options = None and c = "[]" and configFilePaths = batchFiles
            and log = "[]"] r
       store_written_once_after_load
         [where w = corruptStoreWorkspace and options = None and configFilePaths = batchFiles
            and e = "ReadFileError (cachePathOf corruptStoreWorkspace None)" and log = "[]"] r'
  show ?thesis by simp
qed

text \<open>
  C6 as stated fails when the store file cannot be read: the invocation then writes nothing.
  And in a batch one of whose files raises, the store is still written once.
\<close>

theorem store_not_written_counterexample:
  "snd (createNodesV2 corruptStoreWorkspace batchFiles None []) = []"
  by code_simp

lemma store_written_despite_error:
  "length (snd (createNodesV2 (exampleWorkspace plainConfig exampleFiles) batchFiles None [])) = 1 \<and>
   isl (fst (createNodesV2 (exampleWorkspace plainConfig exampleFiles) batchFiles None []))"
  by code_simp

lemma soundFor_empty: "soundFor w options files []"
  by (simp add: soundFor_def)

lemma processFile_unfold:
  "processFile w options f c =
     (case readdirSync w (join [workspaceRoot w, dirname f]) of
        None \<Rightarrow> Inl (ReaddirError (join [workspaceRoot w, dirname f]))
      | Some siblingFiles \<Rightarrow>
          (if ''composer.json'' \<notin> set siblingFiles then Inr ([], c)
           else (case readComposerJson w (join [workspaceRoot w, dirname f, ''composer.json'']) of
                   None \<Rightarrow> Inl (ReadFileError (join [workspaceRoot w, dirname f, ''composer.json'']))
                 | Some composerName \<Rightarrow>
                     (case lookupOrBuild c (hashOf w options f) (buildOf w options f) of
                        Inl e \<Rightarrow> Inl e
                      | Inr (entry, c') \<Rightarrow> Inr (projectOf (dirname f) composerName entry, c')))))"
  by (simp add: processFile_def createNodesInternal_def Let_def hashOf_def buildOf_def
        split: option.splits)

lemma soundFor_update:
  assumes k: "keysConsistent w options files" and s: "soundFor w options files c"
    and f: "f \<in> set files" and b: "buildOf w options f = Inr b"
  shows "soundFor w options files (AList.update (hashOf w options f) b c)"
  unfolding soundFor_def
proof (intro allI impI ballI)
  fix h v g
  assume m: "map_of (AList.update (hashOf w options f) b c) h = Some v"
    and g: "g \<in> set files" and hg: "hashOf w options g = h"
  show "buildOf w options g = Inr v"
  proof (cases "hashOf w options g = hashOf w options f")
    case True
    from m hg True have "v = b" by (simp add: update_conv')
    moreover from k f g True have "buildOf w options g = buildOf w options f"
      unfolding keysConsistent_def by blast
    ultimately show ?thesis using b by simp
  next
    case False
    with m hg have "map_of c (hashOf w options g) = Some v" by (auto simp: update_conv')
    with s g show ?thesis unfolding soundFor_def by blast
  qed
qed

lemma lookupOrBuild_sound:
  assumes k: "keysConsistent w options files" and s: "soundFor w options files c"
    and f: "f \<in> set files"
  shows "(\<forall>e. buildOf w options f = Inl e \<longrightarrow>
            lookupOrBuild c (hashOf w options f) (buildOf w options f) = Inl e) \<and>
         (\<forall>b. buildOf w options f = Inr b \<longrightarrow>
            (\<exists>c'. lookupOrBuild c (hashOf w options f) (buildOf w options f) = Inr (b, c') \<and>
                  soundFor w options files c'))"
proof (cases "map_of c (hashOf w options f)")
  case None
  show ?thesis
  proof (intro conjI allI impI)
    fix e assume "buildOf w options f = Inl e"
    with None show "lookupOrBuild c (hashOf w options f) (buildOf w options f) = Inl e"
      by (simp add: lookupOrBuild_def)
  next
    fix b assume b: "buildOf w options f = Inr b"
    with None have "lookupOrBuild c (hashOf w options f) (buildOf w options f) =
                      Inr (b, AList.update (hashOf w options f) b c)"
      by (simp add: lookupOrBuild_def)
    with soundFor_update[OF k s f b]
    show "\<exists>c'. lookupOrBuild c (hashOf w options f) (buildOf w options f) = Inr (b, c') \<and>
               soundFor w options files c'"
      by blast
  qed
next
  case (Some v')
  with s f have b: "buildOf w options f = Inr v'" unfolding soundFor_def by blast
  from Some have l: "lookupOrBuild c (hashOf w options f) (buildOf w options f) = Inr (v', c)"
    by (simp add: lookupOrBuild_def)
  show ?thesis
  proof (intro conjI allI impI)
    fix e assume "buildOf w options f = Inl e"
    with b show "lookupOrBuild c (hashOf w options f) (buildOf w options f) = Inl e" by simp
  next
    fix b' assume "buildOf w options f = Inr b'"
    with b have "b' = v'" by simp
    with l s
    show "\<exists>c'. lookupOrBuild c (hashOf w options f) (buildOf w options f) = Inr (b', c') \<and>
               soundFor w options files c'"
      by blast
  qed
qed

lemma lookupOrBuild_empty:
  "lookupOrBuild [] h b = (case b of Inl e \<Rightarrow> Inl e | Inr built \<Rightarrow> Inr (built, [(h, built)]))"
  by (simp add: lookupOrBuild_def split: sum.splits)

lemma processFile_sound:
  assumes k: "keysConsistent w options files" and s: "soundFor w options files c"
    and f: "f \<in> set files"
  shows "(\<forall>e. processFile w options f [] = Inl e \<longrightarrow> processFile w options f c = Inl e) \<and>
         (\<forall>v c0. processFile w options f [] = Inr (v, c0) \<longrightarrow>
            (\<exists>c'. processFile w options f c = Inr (v, c') \<and> soundFor w options files c'))"
proof (cases "buildOf w options f")
  case (Inl e)
  with lookupOrBuild_sound[OF k s f]
  have l: "lookupOrBuild c (hashOf w options f) (buildOf w options f) = Inl e" by simp
  from Inl have l0: "lookupOrBuild [] (hashOf w options f) (buildOf w options f) = Inl e"
    by (simp add: lookupOrBuild_empty)
  show ?thesis
    unfolding processFile_unfold l l0 using s
    by (auto split: option.splits)
next
  case (Inr b)
  with lookupOrBuild_sound[OF k s f] obtain c' where
    l: "lookupOrBuild c (hashOf w options f) (buildOf w options f) = Inr (b, c')"
    and s': "soundFor w options files c'" by auto
  from Inr have l0: "lookupOrBuild [] (hashOf w options f) (buildOf w options f) =
                       Inr (b, [(hashOf w options f, b)])"
    by (simp add: lookupOrBuild_empty)
  show ?thesis
    unfolding processFile_unfold l l0 using s s'
    by (auto split: option.splits)
qed

lemma loop_sound:
  assumes k: "keysConsistent w options files"
  shows "set fs \<subseteq> set files \<Longrightarrow> soundFor w options files c \<Longrightarrow>
         batch_results (createNodesFromFilesLoop (processFile w options) fs c) =
           batch_results (createNodesFromFilesLoop (recomputeFile w options) fs c0) \<and>
         batch_errors (createNodesFromFilesLoop (processFile w options) fs c) =
           batch_errors (createNodesFromFilesLoop (recomputeFile w options) fs c0) \<and>
         soundFor w options files (batch_cache (createNodesFromFilesLoop (processFile w options) fs c))"
proof (induction fs arbitrary: c)
  case Nil
  then show ?case by simp
next
  case (Cons f fs)
  then have f: "f \<in> set files" and fs: "set fs \<subseteq> set files" by auto
  note ps = processFile_sound[OF k Cons.prems(2) f]
  show ?case
  proof (cases "processFile w options f []")
    case (Inl e)
    with ps have pc: "processFile w options f c = Inl e" by blast
    from Inl have rc: "recomputeFile w options f c0 = Inl e" by (simp add: recomputeFile_def)
    from Cons.IH[OF fs Cons.prems(2)] show ?thesis
      by (simp add: pc rc Let_def)
  next
    case (Inr p)
    obtain v c0' where p: "p = (v, c0')" by (cases p)
    with Inr ps obtain c' where c': "processFile w options f c = Inr (v, c')"
      and s': "soundFor w options files c'" by blast
    from Inr p have rc: "recomputeFile w options f c0 = Inr (v, c0)" by (simp add: recomputeFile_def)
    from Cons.IH[OF fs s'] show ?thesis
      by (simp add: c' rc Let_def)
  qed
qed

lemma forEachFile_cacheFiles:
  "forEachFile (w\<lparr>cacheFiles := d\<rparr>) cb files st = forEachFile w cb files st"
  by (induction files arbitrary: st) (auto split: option.splits bool.splits)

lemma ciCallback_cacheFiles:
  "ciCallback (w\<lparr>cacheFiles := d\<rparr>) ci projectRoot b t cov = ciCallback w ci projectRoot b t cov"
  by (intro ext) (simp add: ciCallback_def ciFileTarget_def ciFileTargetName_def)

lemma buildPhpUnitTargets_cacheFiles:
  "buildPhpUnitTargets (w\<lparr>cacheFiles := d\<rparr>) f p opts = buildPhpUnitTargets w f p opts"
  by (simp add: buildPhpUnitTargets_def forEachTestFile_def forEachFile_cacheFiles
        ciCallback_cacheFiles cong: option.case_cong sum.case_cong if_cong)

lemma createNodesInternal_cacheFiles:
  "createNodesInternal (w\<lparr>cacheFiles := d\<rparr>) f opts c = createNodesInternal w f opts c"
  by (simp add: createNodesInternal_def buildPhpUnitTargets_cacheFiles
        cong: option.case_cong if_cong)

lemma processFile_afterWrites:
  "processFile (afterWrites w log) options = processFile w options"
  by (intro ext) (simp add: processFile_def afterWrites_def createNodesInternal_cacheFiles)

lemma cachePathOf_afterWrites: "cachePathOf (afterWrites w log) options = cachePathOf w options"
  by (simp add: cachePathOf_def afterWrites_def)

lemma readTargetsCache_afterWrites:
  "readTargetsCache (afterWrites w (log @ [(p, c)])) p = Inr c"
  by (simp add: readTargetsCache_def afterWrites_def)

text \<open>
  C4. Take a batch in which equal store keys stand for equal builder results (what a content
  hash is for). Running the entry point on a cleared store gives, for every file, exactly what
  recomputing from scratch gives; and running it again, on the store the first run wrote to
  disk, gives the same outcome as the first run: the same projects, targets and metadata,
  and the same errors.
\<close>

theorem memoization_does_not_alter_output:
  assumes k: "keysConsistent w options configFilePaths"
    and cleared: "cacheFiles w (cachePathOf w options) = None"
  shows "fst (createNodesV2 (afterWrites w (snd (createNodesV2 w configFilePaths options log)))
                configFilePaths options log') =
           fst (createNodesV2 w configFilePaths options log) \<and>
         fst (createNodesV2 w configFilePaths options log) =
           fst (createNodesFromFiles (recomputeFile w options) configFilePaths [])"
proof -
  let ?p = "cachePathOf w options"
  let ?r1 = "createNodesFromFilesLoop (processFile w options) configFilePaths []"
  let ?rr = "createNodesFromFilesLoop (recomputeFile w options) configFilePaths []"
  from cleared have rd: "readTargetsCache w ?p = Inr []" by (simp add: readTargetsCache_def)
  have v1: "createNodesV2 w configFilePaths options log =
              (fst (createNodesFromFiles (processFile w options) configFilePaths []),
               log @ [(?p, batch_cache ?r1)])"
    by (simp add: createNodesV2_def rd createNodesFromFiles_def processFile_def Let_def
          writeTargetsToCache_def)
  from loop_sound[OF k subset_refl soundFor_empty, of "[]"]
  have e1: "batch_results ?r1 = batch_results ?rr" "batch_errors ?r1 = batch_errors ?rr"
    and s1: "soundFor w options configFilePaths (batch_cache ?r1)" by simp_all
  let ?w2 = "afterWrites w (log @ [(?p, batch_cache ?r1)])"
  let ?r2 = "createNodesFromFilesLoop (processFile w options) configFilePaths (batch_cache ?r1)"
  have rd2: "readTargetsCache ?w2 (cachePathOf ?w2 options) = Inr (batch_cache ?r1)"
    by (simp add: cachePathOf_afterWrites readTargetsCache_afterWrites)
  have v2: "fst (createNodesV2 ?w2 configFilePaths options log') =
              fst (createNodesFromFiles (processFile w options) configFilePaths (batch_cache ?r1))"
    using rd2
    by (simp add: createNodesV2_def createNodesFromFiles_def Let_def
          processFile_afterWrites[unfolded processFile_def] processFile_def
          cachePathOf_afterWrites split: prod.splits)
  from loop_sound[OF k subset_refl s1, of "[]"]
  have e2: "batch_results ?r2 = batch_results ?rr" "batch_errors ?r2 = batch_errors ?rr"
    by simp_all
  have a: "fst (createNodesV2 w configFilePaths options log) =
         fst (createNodesFromFiles (recomputeFile w options) configFilePaths [])"
    by (simp add: v1 createNodesFromFiles_def Let_def e1)
  have b: "fst (createNodesV2 (afterWrites w (snd (createNodesV2 w configFilePaths options log)))
                configFilePaths options log') =
         fst (createNodesV2 w configFilePaths options log)"
    by (simp add: v1 v2 createNodesFromFiles_def Let_def e1 e2)
  from a b show ?thesis by simp
qed

theorem memoization_does_not_alter_output_witness:
  "fst (createNodesV2
          (afterWrites (exampleWorkspace plainConfig exampleFiles)
             (snd (createNodesV2 (exampleWorkspace plainConfig exampleFiles) batchFiles None [])))
          batchFiles None []) =
     fst (createNodesV2 (exampleWorkspace plainConfig exampleFiles) batchFiles None []) \<and>
   fst (createNodesV2 (exampleWorkspace plainConfig exampleFiles) batchFiles None []) =
     fst (createNodesFromFiles (recomputeFile (exampleWorkspace plainConfig exampleFiles) None)
            batchFiles [])"
proof -
  let ?w = "exampleWorkspace plainConfig exampleFiles"
  have k: "keysConsistent ?w None batchFiles" by code_simp
  have c: "cacheFiles ?w (cachePathOf ?w None) = None" by code_simp
  from memoization_does_not_alter_output[OF k c] show ?thesis .
qed

end
